theory Spec2Isabelle
  imports Complex_Main
begin

section \<open>Numbers\<close>

text \<open>
  A JavaScript number is a double. A finite double is modelled by its exact value, a
  rational; the two zeros are identified (no modelled operation tells them apart). The
  result of an arithmetic operation is rounded to the nearest double, ties to even, by
  \<open>round_double\<close>: \<open>floor_log 2 a\<close> is the binary exponent of \<open>a\<close>, the significand has
  53 bits, the least exponent of a unit in the last place is \<open>-1074\<close>, and a result
  of magnitude \<open>2^1024\<close> or more overflows to an infinity.
\<close>

datatype number = Finite rat | PosInfinity | NegInfinity | NaN

text \<open>\<open>ndigits b n\<close> is the number of digits of \<open>n\<close> in base \<open>b\<close> (none for 0).\<close>

function ndigits :: "int \<Rightarrow> int \<Rightarrow> nat" where
  "ndigits b n = (if n \<le> 0 \<or> b < 2 then 0 else Suc (ndigits b (n div b)))"
  by pat_completeness auto
termination
  by (relation "measure (\<lambda>(b, n). nat n)") (auto intro: int_div_less_self)

declare ndigits.simps [simp del]

definition pw :: "rat \<Rightarrow> int \<Rightarrow> rat" where
  "pw b e = (if 0 \<le> e then b ^ nat e else 1 / b ^ nat (- e))"

text \<open>The same power by repeated squaring, to evaluate \<open>pw\<close> with.\<close>

function ipow :: "rat \<Rightarrow> int \<Rightarrow> rat" where
  "ipow b e =
     (if e \<le> 0 then 1
      else if even e then ipow (b * b) (e div 2)
      else b * ipow (b * b) (e div 2))"
  by pat_completeness auto
termination
  by (relation "measure (\<lambda>(b, e). nat e)") auto

declare ipow.simps [simp del]

text \<open>\<open>floor_log b a\<close> is the integer \<open>e\<close> with \<open>b^e \<le> a < b^(e+1)\<close>, for \<open>0 < a\<close>.\<close>

definition floor_log :: "int \<Rightarrow> rat \<Rightarrow> int" where
  "floor_log b a =
     (if 1 \<le> a then int (ndigits b \<lfloor>a\<rfloor>) - 1
      else - int (ndigits b (\<lceil>1 / a\<rceil> - 1)))"

definition round_half_even :: "rat \<Rightarrow> int" where
  "round_half_even r =
     (let f = \<lfloor>r\<rfloor>; d = r - of_int f
      in if d < 1 / 2 then f else if 1 / 2 < d then f + 1 else if even f then f else f + 1)"

definition round_double :: "rat \<Rightarrow> number" where
  "round_double x =
     (if x = 0 then Finite 0
      else
        let a = \<bar>x\<bar>;
            e = max (floor_log 2 a - 52) (- 1074);
            y = of_int (round_half_even (a / pw 2 e)) * pw 2 e
        in if pw 2 1024 \<le> y then (if x < 0 then NegInfinity else PosInfinity)
           else Finite (if x < 0 then - y else y))"

text \<open>The double that a decimal literal of the source or of a document denotes.\<close>

definition lit :: "rat \<Rightarrow> number" where
  "lit r = round_double r"

text \<open>\<^verbatim>\<open>a * b\<close>, \<^verbatim>\<open>a - b\<close> and \<^verbatim>\<open>a + b\<close> on numbers.\<close>

fun mult :: "number \<Rightarrow> number \<Rightarrow> number" where
  "mult NaN y = NaN"
| "mult x NaN = NaN"
| "mult (Finite a) (Finite b) = round_double (a * b)"
| "mult (Finite a) PosInfinity = (if a = 0 then NaN else if 0 < a then PosInfinity else NegInfinity)"
| "mult (Finite a) NegInfinity = (if a = 0 then NaN else if 0 < a then NegInfinity else PosInfinity)"
| "mult PosInfinity (Finite b) = (if b = 0 then NaN else if 0 < b then PosInfinity else NegInfinity)"
| "mult NegInfinity (Finite b) = (if b = 0 then NaN else if 0 < b then NegInfinity else PosInfinity)"
| "mult PosInfinity PosInfinity = PosInfinity"
| "mult PosInfinity NegInfinity = NegInfinity"
| "mult NegInfinity PosInfinity = NegInfinity"
| "mult NegInfinity NegInfinity = PosInfinity"

fun minus :: "number \<Rightarrow> number \<Rightarrow> number" where
  "minus NaN y = NaN"
| "minus x NaN = NaN"
| "minus (Finite a) (Finite b) = round_double (a - b)"
| "minus (Finite a) PosInfinity = NegInfinity"
| "minus (Finite a) NegInfinity = PosInfinity"
| "minus PosInfinity (Finite b) = PosInfinity"
| "minus NegInfinity (Finite b) = NegInfinity"
| "minus PosInfinity PosInfinity = NaN"
| "minus PosInfinity NegInfinity = PosInfinity"
| "minus NegInfinity PosInfinity = NegInfinity"
| "minus NegInfinity NegInfinity = NaN"

fun plus :: "number \<Rightarrow> number \<Rightarrow> number" where
  "plus NaN y = NaN"
| "plus x NaN = NaN"
| "plus (Finite a) (Finite b) = round_double (a + b)"
| "plus (Finite a) PosInfinity = PosInfinity"
| "plus (Finite a) NegInfinity = NegInfinity"
| "plus PosInfinity (Finite b) = PosInfinity"
| "plus NegInfinity (Finite b) = NegInfinity"
| "plus PosInfinity PosInfinity = PosInfinity"
| "plus PosInfinity NegInfinity = NaN"
| "plus NegInfinity PosInfinity = NaN"
| "plus NegInfinity NegInfinity = NegInfinity"

text \<open>\<^verbatim>\<open>x > 0\<close> and \<^verbatim>\<open>x < 0\<close> on numbers: false of NaN.\<close>

fun positive :: "number \<Rightarrow> bool" where
  "positive (Finite a) = (0 < a)"
| "positive PosInfinity = True"
| "positive NegInfinity = False"
| "positive NaN = False"

fun negative :: "number \<Rightarrow> bool" where
  "negative (Finite a) = (a < 0)"
| "negative PosInfinity = False"
| "negative NegInfinity = True"
| "negative NaN = False"

subsection \<open>Decimal digits\<close>

text \<open>The decimal digits of an integer that is not negative.\<close>

definition digit_char :: "int \<Rightarrow> char" where
  "digit_char d =
     (if d = 0 then CHR ''0'' else if d = 1 then CHR ''1'' else if d = 2 then CHR ''2''
      else if d = 3 then CHR ''3'' else if d = 4 then CHR ''4'' else if d = 5 then CHR ''5''
      else if d = 6 then CHR ''6'' else if d = 7 then CHR ''7'' else if d = 8 then CHR ''8''
      else CHR ''9'')"

function decimal :: "int \<Rightarrow> string" where
  "decimal n = (if n < 10 then [digit_char n] else decimal (n div 10) @ [digit_char (n mod 10)])"
  by pat_completeness auto
termination
  by (relation "measure nat") auto

declare decimal.simps [simp del]

subsection \<open>Number::toString\<close>

text \<open>
  The decimal text of a number is made of the shortest digit string \<open>s\<close> (\<open>k\<close> digits)
  and the exponent \<open>n\<close> for which \<open>s * 10^(n - k)\<close> rounds to the number; among the
  digit strings of that length the one closest to the number is taken. The search looks at
  the two neighbours of the number on the grid of \<open>k\<close>-digit decimals, and at the next
  power of ten. Seventeen digits always suffice for a double; the last equation of
  \<open>shortest\<close> is only reached for a rational that is not a double.
\<close>

definition valid_digits :: "rat \<Rightarrow> nat \<Rightarrow> int \<times> int \<Rightarrow> bool" where
  "valid_digits x k c =
     (case c of (n, s) \<Rightarrow>
        10 ^ (k - 1) \<le> s \<and> s < 10 ^ k \<and> round_double (of_int s * pw 10 (n - int k)) = Finite x)"

definition candidates :: "rat \<Rightarrow> nat \<Rightarrow> (int \<times> int) list" where
  "candidates x k =
     (let n0 = floor_log 10 x + 1
      in filter (valid_digits x k)
           [(n0, \<lfloor>x / pw 10 (n0 - int k)\<rfloor>),
            (n0, \<lceil>x / pw 10 (n0 - int k)\<rceil>),
            (n0 + 1, \<lceil>x / pw 10 (n0 + 1 - int k)\<rceil>)])"

definition distance :: "rat \<Rightarrow> nat \<Rightarrow> int \<times> int \<Rightarrow> rat" where
  "distance x k c = (case c of (n, s) \<Rightarrow> \<bar>of_int s * pw 10 (n - int k) - x\<bar>)"

fun closest :: "rat \<Rightarrow> nat \<Rightarrow> (int \<times> int) list \<Rightarrow> int \<times> int \<Rightarrow> int \<times> int" where
  "closest x k [] best = best"
| "closest x k (c # cs) best =
     closest x k cs
       (if distance x k c < distance x k best
           \<or> (distance x k c = distance x k best \<and> even (snd c) \<and> odd (snd best))
        then c else best)"

fun shortest :: "rat \<Rightarrow> nat list \<Rightarrow> nat \<times> int \<times> int" where
  "shortest x [] =
     (17, floor_log 10 x + 1, round_half_even (x / pw 10 (floor_log 10 x + 1 - 17)))"
| "shortest x (k # ks) =
     (case candidates x k of
        [] \<Rightarrow> shortest x ks
      | c # cs \<Rightarrow> (case closest x k cs c of (n, s) \<Rightarrow> (k, n, s)))"

definition Number_toString_pos :: "rat \<Rightarrow> string" where
  "Number_toString_pos x =
     (case shortest x [1 ..< 18] of (k, n, s) \<Rightarrow>
        let ds = decimal s
        in if int k \<le> n \<and> n \<le> 21 then ds @ replicate (nat (n - int k)) CHR ''0''
           else if 0 < n \<and> n \<le> 21 then take (nat n) ds @ ''.'' @ drop (nat n) ds
           else if - 6 < n \<and> n \<le> 0 then ''0.'' @ replicate (nat (- n)) CHR ''0'' @ ds
           else
             let e = n - 1;
                 es = (if e < 0 then ''-'' else ''+'') @ decimal \<bar>e\<bar>
             in if k = 1 then ds @ ''e'' @ es
                else take 1 ds @ ''.'' @ drop 1 ds @ ''e'' @ es)"

definition Number_toString :: "number \<Rightarrow> string" where
  "Number_toString x =
     (case x of
        NaN \<Rightarrow> ''NaN''
      | PosInfinity \<Rightarrow> ''Infinity''
      | NegInfinity \<Rightarrow> ''-Infinity''
      | Finite r \<Rightarrow>
          if r = 0 then ''0''
          else if r < 0 then ''-'' @ Number_toString_pos (- r)
          else Number_toString_pos r)"

subsection \<open>Number.prototype.toFixed\<close>

datatype error = TypeError | RangeError

definition thenE :: "error + 'a \<Rightarrow> ('a \<Rightarrow> error + 'b) \<Rightarrow> error + 'b" where
  "thenE m f = (case m of Inl e \<Rightarrow> Inl e | Inr x \<Rightarrow> f x)"

text \<open>
  \<open>fixed_digits a f\<close> is step 11 of the algorithm, for \<open>0 \<le> a < 10^21\<close>: the integer
  \<open>n\<close> nearest to \<open>a * 10^f\<close> (the larger one of two), its digits, padded on the left
  with zeros to \<open>f + 1\<close> characters, and the decimal point before the last \<open>f\<close> of them.
\<close>

definition fixed_digits :: "rat \<Rightarrow> nat \<Rightarrow> string" where
  "fixed_digits a f =
     (let n = \<lfloor>a * 10 ^ f + 1 / 2\<rfloor>;
          m = (if n = 0 then ''0'' else decimal n)
      in if f = 0 then m
         else
           let m = (if length m \<le> f then replicate (f + 1 - length m) CHR ''0'' @ m else m);
               k = length m
           in take (k - f) m @ ''.'' @ drop (k - f) m)"

text \<open>
  The argument \<open>fractionDigits\<close> is a number; it is truncated to an integer (NaN to 0),
  and an integer outside \<open>0..100\<close> is a RangeError, raised before the receiver is looked at.
\<close>

fun ToIntegerOrInfinity :: "number \<Rightarrow> int option" where
  "ToIntegerOrInfinity NaN = Some 0"
| "ToIntegerOrInfinity PosInfinity = None"
| "ToIntegerOrInfinity NegInfinity = None"
| "ToIntegerOrInfinity (Finite r) = Some (if r < 0 then - \<lfloor>- r\<rfloor> else \<lfloor>r\<rfloor>)"

definition toFixed :: "number \<Rightarrow> number \<Rightarrow> error + string" where
  "toFixed x fractionDigits =
     (case ToIntegerOrInfinity fractionDigits of
        None \<Rightarrow> Inl RangeError
      | Some f \<Rightarrow>
          if f < 0 \<or> 100 < f then Inl RangeError
          else
            (case x of
               Finite r \<Rightarrow>
                 let s = (if r < 0 then ''-'' else []);
                     a = \<bar>r\<bar>
                 in if 10 ^ 21 \<le> a then Inr (s @ Number_toString (Finite a))
                    else Inr (s @ fixed_digits a (nat f))
             | _ \<Rightarrow> Inr (Number_toString x)))"

subsection \<open>The replacement \<^verbatim>\<open>.replace(/\.?0+$/, '')\<close>\<close>

text \<open>
  The pattern is an optional point, one or more zeros, and the end of the text. Without
  the global flag the leftmost match is replaced: the first position from which the rest
  of the text is an optional point and then zeros only.
\<close>

definition zeros_to_end :: "string \<Rightarrow> bool" where
  "zeros_to_end s \<longleftrightarrow> s \<noteq> [] \<and> (\<forall>c \<in> set s. c = CHR ''0'')"

definition match_here :: "string \<Rightarrow> bool" where
  "match_here s \<longleftrightarrow> (case s of c # cs \<Rightarrow> c = CHR ''.'' \<and> zeros_to_end cs | [] \<Rightarrow> False) \<or> zeros_to_end s"

fun replace_trailing_zeros :: "string \<Rightarrow> string" where
  "replace_trailing_zeros [] = []"
| "replace_trailing_zeros (c # cs) =
     (if match_here (c # cs) then [] else c # replace_trailing_zeros cs)"

section \<open>Text\<close>

text \<open>
  JavaScript strings are modelled by \<open>string\<close>, one \<open>char\<close> for each code unit; the
  texts of a model card are taken to be ASCII. The case conversions map the ASCII letters
  and leave every other code unit alone.
\<close>

definition upper_letters :: string where
  "upper_letters = ''ABCDEFGHIJKLMNOPQRSTUVWXYZ''"

definition lower_letters :: string where
  "lower_letters = ''abcdefghijklmnopqrstuvwxyz''"

definition toLowerChar :: "char \<Rightarrow> char" where
  "toLowerChar c = (case map_of (zip upper_letters lower_letters) c of Some d \<Rightarrow> d | None \<Rightarrow> c)"

definition toUpperChar :: "char \<Rightarrow> char" where
  "toUpperChar c = (case map_of (zip lower_letters upper_letters) c of Some d \<Rightarrow> d | None \<Rightarrow> c)"

definition toLowerCase :: "string \<Rightarrow> string" where
  "toLowerCase s = map toLowerChar s"

definition toUpperCase :: "string \<Rightarrow> string" where
  "toUpperCase s = map toUpperChar s"

section \<open>Values\<close>

text \<open>
  The model card is a parsed JSON document, and the standalone renderer reads it without
  any type: a value is undefined, null, a boolean, a number, a string, an array or an
  object. An object is the list of its own properties in the order in which JavaScript
  enumerates them; its keys are distinct.
\<close>

datatype jsval =
    JUndefined
  | JNull
  | JBool bool
  | JNum number
  | JStr string
  | JArr "jsval list"
  | JObj "(string \<times> jsval) list"

text \<open>
  Built-in functions whose result depends on the host or that no property below depends
  on are parameters: the conversion of a string to a number, \<^verbatim>\<open>JSON.stringify(v, null, 2)\<close>,
  the number format of the host's locale and its list separator, and the source text that
  \<^verbatim>\<open>Function.prototype.toString\<close> gives for the built-in method of \<^verbatim>\<open>Object.prototype\<close>
  of a given name.
\<close>

record host =
  StringToNumber :: "string \<Rightarrow> number"
  JSON_stringify :: "jsval \<Rightarrow> string"
  Number_toLocaleString :: "number \<Rightarrow> string"
  list_separator :: string
  function_text :: "string \<Rightarrow> string"

fun truthy :: "jsval \<Rightarrow> bool" where
  "truthy JUndefined = False"
| "truthy JNull = False"
| "truthy (JBool b) = b"
| "truthy (JNum x) = (x \<noteq> Finite 0 \<and> x \<noteq> NaN)"
| "truthy (JStr s) = (s \<noteq> [])"
| "truthy (JArr xs) = True"
| "truthy (JObj ps) = True"

text \<open>\<^verbatim>\<open>a || b\<close>\<close>

definition or_else :: "jsval \<Rightarrow> jsval \<Rightarrow> jsval" where
  "or_else a b = (if truthy a then a else b)"

definition has_own :: "(string \<times> jsval) list \<Rightarrow> string \<Rightarrow> bool" where
  "has_own ps k \<longleftrightarrow> map_of ps k \<noteq> None"

text \<open>An own property of an object, undefined when there is none.\<close>

definition lookup :: "(string \<times> jsval) list \<Rightarrow> string \<Rightarrow> jsval" where
  "lookup ps k = (case map_of ps k of Some v \<Rightarrow> v | None \<Rightarrow> JUndefined)"

text \<open>
  \<^verbatim>\<open>v.name\<close>, for the property names the renderers read: none of them is a property of
  a built-in prototype, so a missing own property reads as undefined, and only
  \<^verbatim>\<open>length\<close> is defined on strings and arrays. Reading a property of undefined or null
  is a TypeError.
\<close>

fun get :: "jsval \<Rightarrow> string \<Rightarrow> error + jsval" where
  "get JUndefined k = Inl TypeError"
| "get JNull k = Inl TypeError"
| "get (JBool b) k = Inr JUndefined"
| "get (JNum x) k = Inr JUndefined"
| "get (JStr s) k = Inr (if k = ''length'' then JNum (Finite (of_nat (length s))) else JUndefined)"
| "get (JArr xs) k = Inr (if k = ''length'' then JNum (Finite (of_nat (length xs))) else JUndefined)"
| "get (JObj ps) k = Inr (lookup ps k)"

text \<open>\<^verbatim>\<open>v[i]\<close> for an index \<open>i\<close>.\<close>

fun get_index :: "jsval \<Rightarrow> nat \<Rightarrow> error + jsval" where
  "get_index JUndefined i = Inl TypeError"
| "get_index JNull i = Inl TypeError"
| "get_index (JBool b) i = Inr JUndefined"
| "get_index (JNum x) i = Inr JUndefined"
| "get_index (JStr s) i = Inr (if i < length s then JStr [s ! i] else JUndefined)"
| "get_index (JArr xs) i = Inr (if i < length xs then xs ! i else JUndefined)"
| "get_index (JObj ps) i = Inr (lookup ps (decimal (int i)))"

fun sequenceE :: "(error + 'a) list \<Rightarrow> error + 'a list" where
  "sequenceE [] = Inr []"
| "sequenceE (m # ms) = thenE m (\<lambda>x. thenE (sequenceE ms) (\<lambda>xs. Inr (x # xs)))"

fun join :: "string \<Rightarrow> string list \<Rightarrow> string" where
  "join sep [] = []"
| "join sep [x] = x"
| "join sep (x # y # ys) = x @ sep @ join sep (y # ys)"

text \<open>
  The conversion to a string, as a template literal and \<^verbatim>\<open>String(v)\<close> apply it. An
  array is the join of its elements with a comma, undefined and null elements being
  empty. An object of a JSON document has no callable property: with an own property
  \<^verbatim>\<open>toString\<close> the conversion finds no method and is a TypeError, otherwise it is the
  text of \<^verbatim>\<open>Object.prototype.toString\<close>.
\<close>

fun ToString :: "jsval \<Rightarrow> error + string" where
  "ToString JUndefined = Inr ''undefined''"
| "ToString JNull = Inr ''null''"
| "ToString (JBool b) = Inr (if b then ''true'' else ''false'')"
| "ToString (JNum x) = Inr (Number_toString x)"
| "ToString (JStr s) = Inr s"
| "ToString (JArr xs) =
     thenE (sequenceE (map (\<lambda>x. if x = JUndefined \<or> x = JNull then Inr [] else ToString x) xs))
       (\<lambda>ss. Inr (join '','' ss))"
| "ToString (JObj ps) = (if has_own ps ''toString'' then Inl TypeError else Inr ''[object Object]'')"

text \<open>
  The conversion to a number, as \<^verbatim>\<open>*\<close> and \<^verbatim>\<open><\<close> apply it. An array or an object is
  first made a string by the steps above (its \<^verbatim>\<open>valueOf\<close> does not return a primitive
  value).
\<close>

fun ToNumber :: "host \<Rightarrow> jsval \<Rightarrow> error + number" where
  "ToNumber h JUndefined = Inr NaN"
| "ToNumber h JNull = Inr (Finite 0)"
| "ToNumber h (JBool b) = Inr (Finite (if b then 1 else 0))"
| "ToNumber h (JNum x) = Inr x"
| "ToNumber h (JStr s) = Inr (StringToNumber h s)"
| "ToNumber h (JArr xs) = thenE (ToString (JArr xs)) (\<lambda>s. Inr (StringToNumber h s))"
| "ToNumber h (JObj ps) = thenE (ToString (JObj ps)) (\<lambda>s. Inr (StringToNumber h s))"

text \<open>
  \<^verbatim>\<open>v.toLocaleString()\<close>. A string and a boolean have the method of
  \<^verbatim>\<open>Object.prototype\<close>, which calls \<^verbatim>\<open>toString\<close>; so has an object, unless an own
  property hides either method with a value that cannot be called.
\<close>

fun toLocaleString :: "host \<Rightarrow> jsval \<Rightarrow> error + string" where
  "toLocaleString h JUndefined = Inl TypeError"
| "toLocaleString h JNull = Inl TypeError"
| "toLocaleString h (JBool b) = Inr (if b then ''true'' else ''false'')"
| "toLocaleString h (JNum x) = Inr (Number_toLocaleString h x)"
| "toLocaleString h (JStr s) = Inr s"
| "toLocaleString h (JArr xs) =
     thenE (sequenceE (map (\<lambda>x. if x = JUndefined \<or> x = JNull then Inr [] else toLocaleString h x) xs))
       (\<lambda>ss. Inr (join (list_separator h) ss))"
| "toLocaleString h (JObj ps) =
     (if has_own ps ''toLocaleString'' \<or> has_own ps ''toString'' then Inl TypeError
      else Inr ''[object Object]'')"

text \<open>Method calls on a value that may not be a string or a number.\<close>

definition substring :: "string \<Rightarrow> nat \<Rightarrow> nat \<Rightarrow> string" where
  "substring s start finish =
     (let a = min start (length s); b = min finish (length s)
      in take (max a b - min a b) (drop (min a b) s))"

fun call_substring :: "jsval \<Rightarrow> nat \<Rightarrow> nat \<Rightarrow> error + string" where
  "call_substring (JStr s) start finish = Inr (substring s start finish)"
| "call_substring v start finish = Inl TypeError"

fun call_toLowerCase :: "jsval \<Rightarrow> error + string" where
  "call_toLowerCase (JStr s) = Inr (toLowerCase s)"
| "call_toLowerCase v = Inl TypeError"

fun call_toUpperCase :: "jsval \<Rightarrow> error + string" where
  "call_toUpperCase (JStr s) = Inr (toUpperCase s)"
| "call_toUpperCase v = Inl TypeError"

fun call_toFixed :: "jsval \<Rightarrow> number \<Rightarrow> error + string" where
  "call_toFixed (JNum x) fractionDigits = toFixed x fractionDigits"
| "call_toFixed v fractionDigits = Inl TypeError"

section \<open>Formatting values\<close>

subsection \<open>Standalone renderer (model-card.js)\<close>

text \<open>
  \<^verbatim>\<open>formatValue(value, precision)\<close>; a precision that is not passed is \<open>None\<close>, and
  \<^verbatim>\<open>precision || 4\<close> also replaces the precisions 0 and NaN by 4.
\<close>

definition formatValue_js :: "host \<Rightarrow> jsval \<Rightarrow> number option \<Rightarrow> error + string" where
  "formatValue_js h v precision =
     (let precision = (case precision of
                         None \<Rightarrow> Finite 4
                       | Some p \<Rightarrow> if truthy (JNum p) then p else Finite 4)
      in case v of
           JNull \<Rightarrow> Inr ''<em>N/A</em>''
         | JUndefined \<Rightarrow> Inr ''<em>N/A</em>''
         | JNum x \<Rightarrow> thenE (toFixed x precision) (\<lambda>formatted. Inr (replace_trailing_zeros formatted))
         | JBool b \<Rightarrow> ToString v
         | JArr xs \<Rightarrow> Inr (''<pre>'' @ JSON_stringify h v @ ''</pre>'')
         | JObj ps \<Rightarrow> Inr (''<pre>'' @ JSON_stringify h v @ ''</pre>'')
         | JStr s \<Rightarrow> ToString v)"

definition formatPercentage_js :: "host \<Rightarrow> jsval \<Rightarrow> error + string" where
  "formatPercentage_js h v =
     (if v = JNull \<or> v = JUndefined then Inr ''<em>N/A</em>''
      else thenE (ToNumber h v) (\<lambda>x. thenE (toFixed (mult x (Finite 100)) (Finite 2)) (\<lambda>s. Inr (s @ ''%''))))"

subsection \<open>React component\<close>

text \<open>
  \<^verbatim>\<open>formatValue(value: any, precision: number = 4)\<close> and
  \<^verbatim>\<open>formatPercentage(value: number | null)\<close>.
\<close>

definition formatValue :: "jsval \<Rightarrow> number option \<Rightarrow> error + string" where
  "formatValue v precision =
     (let precision = (case precision of None \<Rightarrow> Finite 4 | Some p \<Rightarrow> p)
      in case v of
           JNull \<Rightarrow> Inr ''N/A''
         | JUndefined \<Rightarrow> Inr ''N/A''
         | JNum x \<Rightarrow> thenE (toFixed x precision) (\<lambda>formatted. Inr (replace_trailing_zeros formatted))
         | _ \<Rightarrow> ToString v)"

definition formatPercentage :: "number option \<Rightarrow> error + string" where
  "formatPercentage v =
     (case v of
        None \<Rightarrow> Inr ''N/A''
      | Some x \<Rightarrow> thenE (toFixed (mult x (Finite 100)) (Finite 2)) (\<lambda>s. Inr (s @ ''%'')))"

section \<open>The standalone renderer (model-card.js)\<close>

text \<open>
  A template literal is the list of its text chunks, one more than it has placeholders;
  \<open>fill\<close> puts the values of the placeholders, evaluated from left to right, between
  the chunks. \<open>lines_of\<close> joins the lines of a chunk with the newline character, and \<open>q\<close>
  is the single quote.
\<close>

definition q :: string where
  "q = [CHR 0x27]"

definition lines_of :: "string list \<Rightarrow> string" where
  "lines_of ls = join [CHR 0x0A] ls"

fun fill :: "string list \<Rightarrow> string list \<Rightarrow> string" where
  "fill [] holes = []"
| "fill (c # cs) [] = c"
| "fill (c # cs) (v # holes) = c @ v @ fill cs holes"

definition template :: "string list \<Rightarrow> (error + string) list \<Rightarrow> error + string" where
  "template chunks holes = thenE (sequenceE holes) (\<lambda>values. Inr (fill chunks values))"

subsection \<open>Colours\<close>

definition getStatusColor_js :: "jsval \<Rightarrow> error + string" where
  "getStatusColor_js status =
     thenE (call_toLowerCase (or_else status (JStr [])))
       (\<lambda>statusLower.
          Inr (if statusLower = ''done'' then ''#28a745''
               else if statusLower = ''training'' then ''#ffc107''
               else if statusLower = ''failed'' then ''#dc3545''
               else ''#6c757d''))"

definition getQualityColor_js :: "jsval \<Rightarrow> error + string" where
  "getQualityColor_js assessment =
     (if \<not> truthy assessment then Inr ''#6c757d''
      else
        thenE (call_toLowerCase assessment)
          (\<lambda>assessmentLower.
             Inr (if assessmentLower = ''excellent'' then ''#28a745''
                  else if assessmentLower = ''good'' then ''#007bff''
                  else if assessmentLower = ''fair'' then ''#ffc107''
                  else if assessmentLower = ''poor'' then ''#fd7e14''
                  else ''#6c757d'')))"

definition getSeverityColor_js :: "jsval \<Rightarrow> error + string" where
  "getSeverityColor_js severity =
     thenE (call_toLowerCase (or_else severity (JStr [])))
       (\<lambda>severityLower.
          Inr (if severityLower = ''high'' then ''#dc3545''
               else if severityLower = ''moderate'' then ''#ffc107''
               else if severityLower = ''low'' then ''#007bff''
               else ''#6c757d''))"

subsection \<open>Placeholders\<close>

text \<open>
  \<^verbatim>\<open>${o.k || 'd'}\<close>, \<^verbatim>\<open>${(o.k || 'd').toUpperCase()}\<close> and
  \<^verbatim>\<open>${o.k !== null && o.k !== undefined ? o.k.toFixed(3) : 'N/A'}\<close>.
\<close>

definition text_or :: "jsval \<Rightarrow> string \<Rightarrow> jsval \<Rightarrow> error + string" where
  "text_or obj k d = thenE (get obj k) (\<lambda>v. ToString (or_else v d))"

definition upper_or :: "jsval \<Rightarrow> string \<Rightarrow> jsval \<Rightarrow> error + string" where
  "upper_or obj k d = thenE (get obj k) (\<lambda>v. call_toUpperCase (or_else v d))"

definition fixed3_or :: "jsval \<Rightarrow> string \<Rightarrow> error + string" where
  "fixed3_or obj k =
     thenE (get obj k)
       (\<lambda>v. if v \<noteq> JNull \<and> v \<noteq> JUndefined then call_toFixed v (Finite 3) else Inr ''N/A'')"

subsection \<open>renderModelIdentification\<close>

text \<open>The template of the section (lines 90 to 134 of model-card.js).\<close>

definition model_identification_template :: "string list" where
  \<open>model_identification_template =
     [lines_of
        ['''',
         ''    <div class="section">'',
         ''        <div class="section-title">Model Identification</div>'',
         ''        <div class="grid">'',
         ''            <div class="metric">'',
         ''                <div class="metric-label">Session ID</div>'',
         ''                <div class="metric-value" style="font-size: 18px;">''],
      lines_of
        [''</div>'',
         ''            </div>'',
         ''            <div class="metric">'',
         ''                <div class="metric-label">Compute Cluster</div>'',
         ''                <div class="metric-value">''],
      lines_of
        [''</div>'',
         ''            </div>'',
         ''            <div class="metric">'',
         ''                <div class="metric-label">Training Date</div>'',
         ''                <div class="metric-value" style="font-size: 18px;">''],
      lines_of
        [''</div>'',
         ''            </div>'',
         ''            <div class="metric">'',
         ''                <div class="metric-label">Status</div>'',
         ''                <div class="metric-value"><span class="status-badge" style="background-color: ''],
      lines_of [''">''],
      lines_of
        [''</span></div>'',
         ''            </div>'',
         ''        </div>'',
         ''        <table>'',
         ''            <tr>'',
         ''                <th style="width: 250px;">Job ID</th>'',
         ''                <td><code>''],
      lines_of
        [''</code></td>'',
         ''            </tr>'',
         ''            <tr>'',
         ''                <th>Model Type</th>'',
         ''                <td>''],
      lines_of
        [''</td>'',
         ''            </tr>'',
         ''            <tr>'',
         ''                <th>Target Column</th>'',
         ''                <td>''],
      lines_of
        [''</td>'',
         ''            </tr>'',
         ''            <tr>'',
         ''                <th>Target Type</th>'',
         ''                <td>''],
      lines_of
        [''</td>'',
         ''            </tr>'',
         ''            <tr>'',
         ''                <th>Framework</th>'',
         ''                <td>''],
      lines_of
        [''</td>'',
         ''            </tr>'',
         ''        </table>'',
         ''    </div>'',
         ''      '']]\<close>

definition renderModelIdentification :: "jsval \<Rightarrow> error + string" where
  "renderModelIdentification data =
     thenE (get data ''model_identification'') (\<lambda>v.
       let mi = or_else v (JObj []) in
       thenE (get mi ''status'') (\<lambda>status.
       thenE (getStatusColor_js status) (\<lambda>statusColor.
       thenE (get mi ''session_id'') (\<lambda>session_id.
       thenE (if truthy session_id then call_substring session_id 0 20 else Inr ''N/A'')
         (\<lambda>sessionIdShort.
            template model_identification_template
              [Inr sessionIdShort,
               upper_or mi ''compute_cluster'' (JStr ''N/A''),
               text_or mi ''training_date'' (JStr ''N/A''),
               Inr statusColor,
               upper_or mi ''status'' (JStr ''N/A''),
               text_or mi ''job_id'' (JStr ''N/A''),
               text_or mi ''model_type'' (JStr ''N/A''),
               text_or mi ''target_column'' (JStr ''N/A''),
               text_or mi ''target_column_type'' (JStr ''N/A''),
               text_or mi ''framework'' (JStr ''N/A'')])))))"

subsection \<open>renderTrainingDataset\<close>

text \<open>The template of the section (lines 144 to 166 of model-card.js).\<close>

definition training_dataset_template :: "string list" where
  \<open>training_dataset_template =
     [lines_of
        ['''',
         ''    <div class="section">'',
         ''        <div class="section-title">Training Dataset</div>'',
         ''        <div class="grid">'',
         ''            <div class="metric">'',
         ''                <div class="metric-label">Training Rows</div>'',
         ''                <div class="metric-value">''],
      lines_of
        [''</div>'',
         ''            </div>'',
         ''            <div class="metric">'',
         ''                <div class="metric-label">Total Features</div>'',
         ''                <div class="metric-value">''],
      lines_of
        [''</div>'',
         ''            </div>'',
         ''            <div class="metric">'',
         ''                <div class="metric-label">Target Column</div>'',
         ''                <div class="metric-value" style="font-size: 18px;">''],
      lines_of
        [''</div>'',
         ''            </div>'',
         ''            <div class="metric">'',
         ''                <div class="metric-label">Target Type</div>'',
         ''                <div class="metric-value">''],
      lines_of
        [''</div>'',
         ''            </div>'',
         ''        </div>'',
         ''    </div>'',
         ''      '']]\<close>

definition renderTrainingDataset :: "host \<Rightarrow> jsval \<Rightarrow> error + string" where
  "renderTrainingDataset h data =
     thenE (get data ''training_dataset'') (\<lambda>v.
       let td = or_else v (JObj []) in
       thenE (get data ''model_identification'') (\<lambda>v.
         let mi = or_else v (JObj []) in
         template training_dataset_template
           [thenE (get td ''train_rows'') (\<lambda>n. toLocaleString h (or_else n (JNum (Finite 0)))),
            text_or td ''total_features'' (JNum (Finite 0)),
            text_or td ''target_column'' (JStr ''N/A''),
            upper_or mi ''target_column_type'' (JStr ''N/A'')]))"

subsection \<open>renderTrainingMetrics\<close>

text \<open>The opening of the section (lines 176 to 179 of model-card.js).\<close>

definition training_metrics_open :: "string list" where
  \<open>training_metrics_open =
     [lines_of
        ['''',
         ''    <div class="section">'',
         ''        <div class="section-title">Model Performance Metrics</div>'',
         ''      '']]\<close>

text \<open>The grid of the classification metrics (lines 184 to 203 of model-card.js).\<close>

definition classification_grid_template :: "string list" where
  \<open>classification_grid_template =
     [lines_of
        ['''',
         ''        <div class="grid">'',
         ''            <div class="metric">'',
         ''                <div class="metric-label">Precision</div>'',
         ''                <div class="metric-value">''],
      lines_of
        [''</div>'',
         ''            </div>'',
         ''            <div class="metric">'',
         ''                <div class="metric-label">Recall</div>'',
         ''                <div class="metric-value">''],
      lines_of
        [''</div>'',
         ''            </div>'',
         ''            <div class="metric">'',
         ''                <div class="metric-label">F1 Score</div>'',
         ''                <div class="metric-value">''],
      lines_of
        [''</div>'',
         ''            </div>'',
         ''            <div class="metric">'',
         ''                <div class="metric-label">AUC</div>'',
         ''                <div class="metric-value">''],
      lines_of
        [''</div>'',
         ''            </div>'',
         ''        </div>'',
         ''        '']]\<close>

text \<open>The closing of a section; the same text closes the model-quality section (lines 206 to 208 of model-card.js).\<close>

definition section_close :: "string list" where
  \<open>section_close =
     [lines_of
        ['''',
         ''    </div>'',
         ''      '']]\<close>

definition renderTrainingMetrics :: "jsval \<Rightarrow> error + string" where
  "renderTrainingMetrics data =
     thenE (get data ''training_metrics'') (\<lambda>v.
       let tm = or_else v (JObj []) in
       thenE (get data ''model_identification'') (\<lambda>v.
       thenE (get (or_else v (JObj [])) ''model_type'') (\<lambda>v.
         let modelType = or_else v (JStr []);
             html = fill training_metrics_open []
         in
         thenE (if modelType = JStr ''Single Predictor''
                then thenE (get tm ''classification_metrics'') (\<lambda>cm.
                       if truthy cm
                       then thenE (template classification_grid_template
                                     [fixed3_or cm ''precision'', fixed3_or cm ''recall'',
                                      fixed3_or cm ''f1'', fixed3_or cm ''auc''])
                              (\<lambda>grid. Inr (html @ grid))
                       else Inr html)
                else Inr html)
           (\<lambda>html. Inr (html @ fill section_close [])))))"

subsection \<open>renderModelQuality\<close>

text \<open>The opening of the section (lines 218 to 221 of model-card.js).\<close>

definition model_quality_open :: "string list" where
  \<open>model_quality_open =
     [lines_of
        ['''',
         ''    <div class="section">'',
         ''        <div class="section-title">Model Quality</div>'',
         ''      '']]\<close>

text \<open>The table of the assessment (lines 225 to 232 of model-card.js).\<close>

definition assessment_template :: "string list" where
  \<open>assessment_template =
     [lines_of
        ['''',
         ''        <table>'',
         ''            <tr>'',
         ''                <th style="width: 250px;">Assessment</th>'',
         ''                <td><span class="quality-badge" style="background-color: ''],
      lines_of [''">''],
      lines_of
        [''</span></td>'',
         ''            </tr>'',
         ''        </table>'',
         ''        '']]\<close>

text \<open>One warning (lines 240 to 248 of model-card.js).\<close>

definition warning_template :: "string list" where
  \<open>warning_template =
     [lines_of
        ['''',
         ''            <div class="warning-item">'',
         ''                <div class="warning-header">'',
         ''                    <span class="severity-badge" style="background-color: ''],
      lines_of [''">''],
      lines_of
        [''</span>'',
         ''                    <strong>''],
      lines_of
        [''</strong>'',
         ''                </div>'',
         ''                <div class="warning-message">''],
      lines_of
        [''</div>'',
         ''            </div>'',
         ''          '']]\<close>

definition warnings_open :: string where
  \<open>warnings_open =
     ''<h3 style="margin: 15px 0 10px 0; font-size: 16px;">Warnings</h3><div class="warnings-list">''\<close>

definition renderWarning :: "jsval \<Rightarrow> error + string" where
  "renderWarning warning =
     thenE (get warning ''severity'') (\<lambda>severity.
     thenE (getSeverityColor_js severity) (\<lambda>severityColor.
       template warning_template
         [Inr severityColor,
          text_or warning ''severity'' (JStr ''UNKNOWN''),
          text_or warning ''type'' (JStr ''N/A''),
          text_or warning ''message'' (JStr ''N/A'')]))"

text \<open>
  The loop \<^verbatim>\<open>for (var i = 0; i < mq.warnings.length; i++)\<close> runs while \<open>i\<close> is below
  the number that \<^verbatim>\<open>mq.warnings.length\<close> converts to. For an array and for a string
  that is their length. An object may hold any \<^verbatim>\<open>length\<close>; but it has a value under
  at most as many indices as it has properties, and the body raises a TypeError on the
  first index without a value, so the loop never gets beyond the index \<open>length ps\<close>:
  \<open>iterations\<close> stops there.
\<close>

fun iteration_bound :: "jsval \<Rightarrow> nat" where
  "iteration_bound (JArr xs) = length xs"
| "iteration_bound (JStr s) = length s"
| "iteration_bound (JObj ps) = Suc (length ps)"
| "iteration_bound v = 0"

fun iterations :: "number \<Rightarrow> nat \<Rightarrow> nat" where
  "iterations (Finite r) bound = min bound (nat \<lceil>r\<rceil>)"
| "iterations PosInfinity bound = bound"
| "iterations NegInfinity bound = 0"
| "iterations NaN bound = 0"

definition renderModelQuality :: "host \<Rightarrow> jsval \<Rightarrow> error + string" where
  "renderModelQuality h data =
     thenE (get data ''model_quality'') (\<lambda>v.
       let mq = or_else v (JObj []);
           html = fill model_quality_open []
       in
       thenE (get mq ''assessment'') (\<lambda>assessment.
       thenE (if truthy assessment
              then thenE (getQualityColor_js assessment) (\<lambda>qualityColor.
                   thenE (template assessment_template [Inr qualityColor, ToString assessment])
                     (\<lambda>table. Inr (html @ table)))
              else Inr html) (\<lambda>html.
       thenE (get mq ''warnings'') (\<lambda>warnings.
       thenE (if truthy warnings
              then thenE (get warnings ''length'') (\<lambda>len.
                   thenE (ToNumber h len) (\<lambda>n.
                     if positive n
                     then thenE (sequenceE
                                   (map (\<lambda>i. thenE (get_index warnings i) renderWarning)
                                      [0 ..< iterations n (iteration_bound warnings)]))
                            (\<lambda>items. Inr (html @ warnings_open @ concat items @ ''</div>''))
                     else Inr html))
              else Inr html) (\<lambda>html.
         Inr (html @ fill section_close []))))))"

subsection \<open>renderHTML\<close>

text \<open>
  The page reads the clock: \<^verbatim>\<open>new Date()\<close> and its local-time getters. A reading of the
  clock is a record of what the getters return (\<open>getMonth\<close> counts from 0).
\<close>

record date =
  getFullYear :: int
  getMonth :: int
  getDate :: int
  getHours :: int
  getMinutes :: int
  getSeconds :: int

definition padStart :: "nat \<Rightarrow> char \<Rightarrow> string \<Rightarrow> string" where
  "padStart n c s = replicate (n - length s) c @ s"

definition String_of_int :: "int \<Rightarrow> string" where
  "String_of_int i = Number_toString (Finite (of_int i))"

definition dateStr :: "date \<Rightarrow> string" where
  "dateStr now =
     String_of_int (getFullYear now) @ ''-''
     @ padStart 2 CHR ''0'' (String_of_int (getMonth now + 1)) @ ''-''
     @ padStart 2 CHR ''0'' (String_of_int (getDate now)) @ '' ''
     @ padStart 2 CHR ''0'' (String_of_int (getHours now)) @ '':''
     @ padStart 2 CHR ''0'' (String_of_int (getMinutes now)) @ '':''
     @ padStart 2 CHR ''0'' (String_of_int (getSeconds now))"

text \<open>The template of the page; the two arrow glyphs of its script are written as the bytes of their UTF-8 encoding (lines 347 to 529 of model-card.js).\<close>

definition page_template :: "string list" where
  \<open>page_template =
     [lines_of
        [''<!DOCTYPE html>'',
         ''<html>'',
         ''<head>'',
         ''    <meta charset="UTF-8">'',
         ''    <title>Model Card - ''],
      lines_of
        [''</title>'',
         ''    <style>'',
         ''        * { margin: 0; padding: 0; box-sizing: border-box; }'',
         ''        body { font-family: '' @ q @ ''Courier New'' @ q @ '', monospace; background: #fff; color: #000; line-height: 1.4; }'',
         ''        .page { max-width: 1400px; margin: 0 auto; padding: 40px; }'',
         ''        '',
         ''        .header { border-bottom: 4px solid #000; padding-bottom: 20px; margin-bottom: 30px; }'',
         ''        .header h1 { font-size: 36px; font-weight: bold; letter-spacing: -1px; }'',
         ''        .header .meta { font-size: 14px; margin-top: 8px; }'',
         ''        '',
         ''        .section { margin: 30px 0; page-break-inside: avoid; }'',
         ''        .section-title { font-size: 18px; font-weight: bold; text-transform: uppercase; border-bottom: 2px solid #000; padding-bottom: 5px; margin-bottom: 15px; letter-spacing: 1px; }'',
         ''        '',
         ''        .grid { display: grid; grid-template-columns: repeat(4, 1fr); gap: 15px; margin: 15px 0; }'',
         ''        .metric { border: 1px solid #000; padding: 12px; }'',
         ''        .metric-label { font-size: 12px; text-transform: uppercase; letter-spacing: 0.5px; margin-bottom: 4px; }'',
         ''        .metric-value { font-size: 24px; font-weight: bold; }'',
         ''        '',
         ''        table { width: 100%; border-collapse: collapse; font-size: 14px; margin: 15px 0; }'',
         ''        th { background: #000; color: #fff; padding: 10px; text-align: left; font-weight: bold; font-size: 13px; text-transform: uppercase; }'',
         ''        td { border-bottom: 1px solid #ccc; padding: 8px 10px; }'',
         ''        tr:hover { background: #f5f5f5; }'',
         ''        '',
         ''        .controls {'',
         ''            margin-bottom: 20px;'',
         ''            padding: 15px;'',
         ''            background: #fff;'',
         ''            border: 1px solid #000;'',
         ''            display: flex;'',
         ''            gap: 10px;'',
         ''            flex-wrap: wrap;'',
         ''        }'',
         ''        '',
         ''        .btn {'',
         ''            padding: 8px 16px;'',
         ''            background: #000;'',
         ''            color: #fff;'',
         ''            border: 1px solid #000;'',
         ''            cursor: pointer;'',
         ''            font-size: 14px;'',
         ''            font-family: '' @ q @ ''Courier New'' @ q @ '', monospace;'',
         ''        }'',
         ''        '',
         ''        .btn:hover {'',
         ''            background: #333;'',
         ''        }'',
         ''        '',
         ''        .btn-secondary {'',
         ''            background: #fff;'',
         ''            color: #000;'',
         ''        }'',
         ''        '',
         ''        .btn-secondary:hover {'',
         ''            background: #f5f5f5;'',
         ''        }'',
         ''        '',
         ''        .status-badge, .quality-badge, .severity-badge {'',
         ''            display: inline-block;'',
         ''            padding: 4px 12px;'',
         ''            color: white;'',
         ''            font-size: 12px;'',
         ''            font-weight: 600;'',
         ''        }'',
         ''        '',
         ''        .warning-item {'',
         ''            padding: 15px;'',
         ''            margin-bottom: 15px;'',
         ''            background: #fff3cd;'',
         ''            border-left: 4px solid #ffc107;'',
         ''        }'',
         ''        '',
         ''        .warning-header {'',
         ''            display: flex;'',
         ''            align-items: center;'',
         ''            gap: 10px;'',
         ''            margin-bottom: 10px;'',
         ''        }'',
         ''        '',
         ''        code {'',
         ''            background: #fff;'',
         ''            padding: 2px 6px;'',
         ''            border: 1px solid #000;'',
         ''            font-family: '' @ q @ ''Courier New'' @ q @ '', monospace;'',
         ''            font-size: 13px;'',
         ''        }'',
         ''        '',
         ''        @media print { '',
         ''            @page { size: letter; margin: 0.75in; }'',
         ''            .page { padding: 0; max-width: 100%; }'',
         ''            .section { page-break-inside: avoid; }'',
         ''            .header { page-break-after: always; }'',
         ''            .controls { display: none; }'',
         ''            table { font-size: 10pt; }'',
         ''            .grid { grid-template-columns: repeat(2, 1fr) !important; }'',
         ''        }'',
         ''    </style>'',
         ''</head>'',
         ''<body>'',
         ''    <div class="page">'',
         ''        <div class="header">'',
         ''            <h1>MODEL CARD: ''],
      lines_of
        [''</h1>'',
         ''            <div class="meta">'',
         ''                <strong>Generated:</strong> ''],
      lines_of
        ['' UTC'',
         ''            </div>'',
         ''        </div>'',
         ''        '',
         ''        <div class="controls">'',
         ''            <button class="btn" id="expand-all-btn">Expand All</button>'',
         ''            <button class="btn btn-secondary" id="collapse-all-btn">Collapse All</button>'',
         ''        </div>'',
         ''        '',
         ''        ''],
      lines_of
        ['''',
         ''    </div>'',
         ''    '',
         ''    <script>'',
         ''        (function() {'',
         ''            function expandAll() {'',
         ''                var sections = document.querySelectorAll('' @ q @ ''.section'' @ q @ '');'',
         ''                sections.forEach(function(section) {'',
         ''                    var table = section.querySelector('' @ q @ ''#feature-table'' @ q @ '');'',
         ''                    if (table) {'',
         ''                        table.style.display = '' @ q @ ''block'' @ q @ '';'',
         ''                        var icon = section.querySelector('' @ q @ ''#toggle-icon'' @ q @ '');'',
         ''                        if (icon) icon.textContent = '' @ q @ [CHR 0xE2, CHR 0x96, CHR 0xB2] @ q @ '';'',
         ''                    }'',
         ''                });'',
         ''            }'',
         ''            '',
         ''            function collapseAll() {'',
         ''                var sections = document.querySelectorAll('' @ q @ ''.section'' @ q @ '');'',
         ''                sections.forEach(function(section) {'',
         ''                    var table = section.querySelector('' @ q @ ''#feature-table'' @ q @ '');'',
         ''                    if (table) {'',
         ''                        table.style.display = '' @ q @ ''none'' @ q @ '';'',
         ''                        var icon = section.querySelector('' @ q @ ''#toggle-icon'' @ q @ '');'',
         ''                        if (icon) icon.textContent = '' @ q @ [CHR 0xE2, CHR 0x96, CHR 0xBC] @ q @ '';'',
         ''                    }'',
         ''                });'',
         ''            }'',
         ''            '',
         ''            function toggleFeatures() {'',
         ''                var table = document.getElementById('' @ q @ ''feature-table'' @ q @ '');'',
         ''                var icon = document.getElementById('' @ q @ ''toggle-icon'' @ q @ '');'',
         ''                if (table && icon) {'',
         ''                    if (table.style.display === '' @ q @ ''none'' @ q @ '') {'',
         ''                        table.style.display = '' @ q @ ''block'' @ q @ '';'',
         ''                        icon.textContent = '' @ q @ [CHR 0xE2, CHR 0x96, CHR 0xB2] @ q @ '';'',
         ''                    } else {'',
         ''                        table.style.display = '' @ q @ ''none'' @ q @ '';'',
         ''                        icon.textContent = '' @ q @ [CHR 0xE2, CHR 0x96, CHR 0xBC] @ q @ '';'',
         ''                    }'',
         ''                }'',
         ''            }'',
         ''            '',
         ''            // Attach event listeners when DOM is ready'',
         ''            function attachListeners() {'',
         ''                var expandBtn = document.getElementById('' @ q @ ''expand-all-btn'' @ q @ '');'',
         ''                var collapseBtn = document.getElementById('' @ q @ ''collapse-all-btn'' @ q @ '');'',
         ''                '',
         ''                if (expandBtn) {'',
         ''                    expandBtn.addEventListener('' @ q @ ''click'' @ q @ '', expandAll);'',
         ''                }'',
         ''                if (collapseBtn) {'',
         ''                    collapseBtn.addEventListener('' @ q @ ''click'' @ q @ '', collapseAll);'',
         ''                }'',
         ''                '',
         ''                // Make toggleFeatures available globally'',
         ''                window.toggleFeatures = toggleFeatures;'',
         ''            }'',
         ''            '',
         ''            if (document.readyState === '' @ q @ ''loading'' @ q @ '') {'',
         ''                document.addEventListener('' @ q @ ''DOMContentLoaded'' @ q @ '', attachListeners);'',
         ''            } else {'',
         ''                attachListeners();'',
         ''            }'',
         ''        })();'',
         ''    </script>'',
         ''</body>'',
         ''</html>'']]\<close>

definition renderHTML :: "host \<Rightarrow> date \<Rightarrow> jsval \<Rightarrow> error + string" where
  "renderHTML h now modelCardJson =
     thenE (get modelCardJson ''model_identification'') (\<lambda>v.
     thenE (get (or_else v (JObj [])) ''name'') (\<lambda>v.
       let modelName = or_else v (JStr ''Model Card'') in
       thenE (sequenceE
                [renderModelIdentification modelCardJson,
                 renderTrainingDataset h modelCardJson,
                 renderTrainingMetrics modelCardJson,
                 renderModelQuality h modelCardJson]) (\<lambda>rendered.
         let sections = concat rendered in
         template page_template
           [ToString modelName, call_toUpperCase modelName, Inr (dateStr now), Inr sections])))"

section \<open>The model-type display name (React component)\<close>

text \<open>
  \<^verbatim>\<open>getModelTypeDisplay(modelType: string, targetType: string | null): string\<close>.
  The null target type is \<open>None\<close>. The first test, \<^verbatim>\<open>!modelType\<close>, holds of the empty
  string, the only falsy value of type string.
\<close>

definition getModelTypeDisplay :: "string \<Rightarrow> string option \<Rightarrow> string" where
  "getModelTypeDisplay modelType targetType =
     (if modelType = [] then ''N/A''
      else
        let modelTypeLower = toLowerCase modelType;
            targetTypeLower = toLowerCase (case targetType of None \<Rightarrow> [] | Some t \<Rightarrow> t)
        in
          if modelTypeLower = ''embedding space'' \<or> modelTypeLower = ''es''
          then ''Foundational Embedding Space''
          else if modelTypeLower = ''single predictor'' \<or> modelTypeLower = ''sp''
          then (if targetTypeLower = ''set'' then ''Classifier''
                else if targetTypeLower = ''scalar'' then ''Regression''
                else ''Single Predictor'')
          else modelType)"

section \<open>The fixed-point rendering, as the specification words it\<close>

text \<open>
  The fixed-point rendering of \<open>v\<close> to \<open>p\<close> digits: the magnitude is rounded to the
  nearest multiple of \<open>10^-p\<close> (a tie to the larger one), \<open>scaled v p\<close> being that
  multiple counted in units of \<open>10^-p\<close>; the text is the sign, the digits of the whole
  part, a point and exactly \<open>p\<close> fraction digits. The stripped rendering drops the zeros
  at the end of the fraction, and the point with them when no fraction digit is left.
\<close>

fun last_digits :: "nat \<Rightarrow> int \<Rightarrow> string" where
  "last_digits 0 n = []"
| "last_digits (Suc f) n = last_digits f (n div 10) @ [digit_char (n mod 10)]"

definition strip_zeros :: "string \<Rightarrow> string" where
  "strip_zeros s = rev (dropWhile (\<lambda>c. c = CHR ''0'') (rev s))"

definition sign_text :: "rat \<Rightarrow> string" where
  "sign_text v = (if v < 0 then ''-'' else [])"

definition scaled :: "rat \<Rightarrow> nat \<Rightarrow> int" where
  "scaled v p = \<lfloor>\<bar>v\<bar> * 10 ^ p + 1 / 2\<rfloor>"

definition fixed_point :: "rat \<Rightarrow> nat \<Rightarrow> string" where
  "fixed_point v p =
     sign_text v @ decimal (scaled v p div 10 ^ p) @ ''.'' @ last_digits p (scaled v p)"

definition fixed_point_stripped :: "rat \<Rightarrow> nat \<Rightarrow> string" where
  "fixed_point_stripped v p =
     (let fraction = strip_zeros (last_digits p (scaled v p))
      in sign_text v @ decimal (scaled v p div 10 ^ p)
         @ (if fraction = [] then [] else ''.'' @ fraction))"

text \<open>A host to evaluate examples with; no property below depends on its choices.\<close>

definition sample_host :: host where
  "sample_host =
     \<lparr>StringToNumber = (\<lambda>s. NaN),
      JSON_stringify = (\<lambda>v. ''null''),
      Number_toLocaleString = Number_toString,
      list_separator = '','',
      function_text =
        (\<lambda>k. ''function '' @ (if k = ''constructor'' then ''Object'' else k) @ ''() { [native code] }'')\<rparr>"

section \<open>The chart data of the React component\<close>

text \<open>
  The component is typed by the interface \<^verbatim>\<open>ModelCardData\<close>; of it, the records below hold
  the sections that the modelled functions read. A field of type \<^verbatim>\<open>T | null\<close> and an
  optional field are options, \<open>None\<close> being null or undefined (the code does not tell them
  apart in these fields). The map \<^verbatim>\<open>column_statistics\<close> is the list of its entries in the
  order of \<^verbatim>\<open>Object.entries\<close>; its keys are distinct.
\<close>

record ModelIdentification =
  session_id :: string
  job_id :: string
  name :: string
  target_column :: "string option"
  target_column_type :: "string option"
  compute_cluster :: string
  training_date :: string
  status :: string
  model_type :: string
  framework :: string

record ClassificationMetrics =
  accuracy :: "number option"
  precision :: "number option"
  recall :: "number option"
  f1 :: "number option"
  auc :: "number option"
  is_binary :: bool

record TrainingMetrics =
  classification_metrics :: "ClassificationMetrics option"

record Feature =
  feature_name :: string
  feature_type :: string
  encoder_type :: string

record Recommendation =
  issue :: string
  suggestion :: string

record Warning =
  warning_type :: string
  severity :: string
  message :: string
  details :: jsval
  recommendation :: "string option"

record ModelQuality =
  assessment :: "string option"
  recommendations :: "Recommendation list option"
  warnings :: "Warning list"
  training_quality_warning :: "string option"

record ColumnStats =
  mutual_information_bits :: "number option"
  marginal_loss :: "number option"

record ModelCardData =
  model_identification :: ModelIdentification
  training_metrics :: TrainingMetrics
  feature_inventory :: "Feature list"
  model_quality :: ModelQuality
  column_statistics :: "(string \<times> ColumnStats) list option"

text \<open>\<^verbatim>\<open>x || 0\<close> for \<^verbatim>\<open>x: number | null\<close>: null, NaN and zero give 0.\<close>

definition or_zero :: "number option \<Rightarrow> number" where
  "or_zero x = (case x of None \<Rightarrow> Finite 0 | Some v \<Rightarrow> if truthy (JNum v) then v else Finite 0)"

subsection \<open>metricsChartData\<close>

definition metricsChartData :: "ModelCardData \<Rightarrow> (string \<times> number) list option" where
  "metricsChartData data =
     (if model_type (model_identification data) \<noteq> ''Single Predictor'' then None
      else
        case classification_metrics (training_metrics data) of
          None \<Rightarrow> None
        | Some cm \<Rightarrow>
            Some (filter (\<lambda>item. positive (snd item))
                    [(''Accuracy'', or_zero (accuracy cm)),
                     (''Precision'', or_zero (precision cm)),
                     (''Recall'', or_zero (recall cm)),
                     (''F1'', or_zero (f1 cm)),
                     (''AUC'', or_zero (auc cm))]))"

subsection \<open>featureTypeDistribution\<close>

text \<open>
  The counts are kept in an object, \<^verbatim>\<open>typeCounts\<close>, used as a map from the type strings.
  The model holds its own properties in the order of their creation; a stored value is a
  number or, as shown below, a text.
\<close>

datatype tally = Tally number | Text string

text \<open>
  \<^verbatim>\<open>typeCounts\<close> starts as \<^verbatim>\<open>{}\<close> and inherits the properties of \<^verbatim>\<open>Object.prototype\<close>,
  these names. Read under such a name before a count is stored, \<^verbatim>\<open>typeCounts[key]\<close> is
  the inherited method, or for \<^verbatim>\<open>__proto__\<close> the prototype object: both are truthy, and
  adding 1 to them concatenates their text with \<^verbatim>\<open>1\<close>.
\<close>

definition object_prototype_names :: "string list" where
  "object_prototype_names =
     [''constructor'', ''__defineGetter__'', ''__defineSetter__'', ''hasOwnProperty'',
      ''__lookupGetter__'', ''__lookupSetter__'', ''isPrototypeOf'', ''propertyIsEnumerable'',
      ''toString'', ''valueOf'', ''__proto__'', ''toLocaleString'']"

text \<open>\<^verbatim>\<open>(typeCounts[key] || 0) + 1\<close>\<close>

definition incremented :: "host \<Rightarrow> (string \<times> tally) list \<Rightarrow> string \<Rightarrow> tally" where
  "incremented h typeCounts key =
     (case map_of typeCounts key of
        Some (Tally x) \<Rightarrow> Tally (plus (if truthy (JNum x) then x else Finite 0) (Finite 1))
      | Some (Text s) \<Rightarrow> (if s = [] then Tally (plus (Finite 0) (Finite 1)) else Text (s @ ''1''))
      | None \<Rightarrow>
          if key = ''__proto__'' then Text ''[object Object]1''
          else if key \<in> set object_prototype_names then Text (function_text h key @ ''1'')
          else Tally (plus (Finite 0) (Finite 1)))"

text \<open>
  \<^verbatim>\<open>typeCounts[key] = value\<close>: an own property keeps its place, a new one is created
  last. Under the name \<^verbatim>\<open>__proto__\<close> the assignment calls the inherited setter, which
  ignores a value that is no object.
\<close>

definition store :: "(string \<times> tally) list \<Rightarrow> string \<Rightarrow> tally \<Rightarrow> (string \<times> tally) list" where
  "store typeCounts key v =
     (if key = ''__proto__'' then typeCounts
      else if key \<in> fst ` set typeCounts
      then map (\<lambda>(k, old). if k = key then (k, v) else (k, old)) typeCounts
      else typeCounts @ [(key, v)])"

text \<open>
  \<^verbatim>\<open>Object.entries\<close> lists the own properties whose keys are array indices first, in
  ascending numeric order, and then the other keys in the order of their creation. An
  array index is the decimal numeral, without leading zeros, of an integer from 0 to
  \<open>2^32 - 2\<close>.
\<close>

definition digit_value :: "char \<Rightarrow> int option" where
  "digit_value c = map_of (zip ''0123456789'' [0, 1, 2, 3, 4, 5, 6, 7, 8, 9]) c"

fun digits_value :: "int \<Rightarrow> string \<Rightarrow> int option" where
  "digits_value acc [] = Some acc"
| "digits_value acc (c # cs) =
     (case digit_value c of None \<Rightarrow> None | Some d \<Rightarrow> digits_value (10 * acc + d) cs)"

definition array_index :: "string \<Rightarrow> int option" where
  "array_index s =
     (if s = [] \<or> (hd s = CHR ''0'' \<and> s \<noteq> ''0'') then None
      else case digits_value 0 s of
             None \<Rightarrow> None
           | Some n \<Rightarrow> if n < 2 ^ 32 - 1 then Some n else None)"

definition Object_entries :: "(string \<times> 'a) list \<Rightarrow> (string \<times> 'a) list" where
  "Object_entries props =
     sort_key (\<lambda>p. the (array_index (fst p))) (filter (\<lambda>p. array_index (fst p) \<noteq> None) props)
     @ filter (\<lambda>p. array_index (fst p) = None) props"

definition featureTypeDistribution :: "host \<Rightarrow> ModelCardData \<Rightarrow> (string \<times> tally) list" where
  "featureTypeDistribution h data =
     Object_entries
       (foldl (\<lambda>typeCounts feat.
                 store typeCounts (feature_type feat) (incremented h typeCounts (feature_type feat)))
          [] (feature_inventory data))"

subsection \<open>columnStatisticsData\<close>

record ColumnPoint =
  point_name :: string
  mutualInfo :: number
  marginalLoss :: number

text \<open>
  \<^verbatim>\<open>Array.prototype.sort\<close> with a comparison function: the sort is stable, and with a
  consistent comparison its result is the sorted arrangement, which this insertion sort
  computes; \<open>x\<close> stays before \<open>y\<close> unless \<^verbatim>\<open>compare(x, y) > 0\<close>. (A comparison result
  NaN counts as 0.)
\<close>

fun insert_sorted :: "('a \<Rightarrow> 'a \<Rightarrow> number) \<Rightarrow> 'a \<Rightarrow> 'a list \<Rightarrow> 'a list" where
  "insert_sorted compare x [] = [x]"
| "insert_sorted compare x (y # ys) =
     (if positive (compare x y) then y # insert_sorted compare x ys else x # y # ys)"

definition sort_by :: "('a \<Rightarrow> 'a \<Rightarrow> number) \<Rightarrow> 'a list \<Rightarrow> 'a list" where
  "sort_by compare xs = foldr (insert_sorted compare) xs []"

definition column_point :: "string \<times> ColumnStats \<Rightarrow> ColumnPoint" where
  "column_point entry =
     (case entry of (column, stats) \<Rightarrow>
        \<lparr>point_name = column,
         mutualInfo = or_zero (mutual_information_bits stats),
         marginalLoss = or_zero (marginal_loss stats)\<rparr>)"

definition columnStatisticsData :: "ModelCardData \<Rightarrow> ColumnPoint list option" where
  "columnStatisticsData data =
     (case column_statistics data of
        None \<Rightarrow> None
      | Some entries \<Rightarrow>
          Some (take 10
                 (sort_by (\<lambda>a b. minus (mutualInfo b) (mutualInfo a))
                    (map column_point entries))))"

section \<open>Sections of the React component\<close>

text \<open>
  The component returns a tree of React elements: an element has a type (a tag, or the
  name of a chart component), properties and children; a text child is a string. A child
  that is false, null or undefined renders nothing and is left out of the list of
  children. The glyphs of the toggle icon are written as the bytes of their UTF-8 encoding.
\<close>

datatype property =
    Str string
  | Num number
  | Style "(string \<times> string) list"
  | Series "ColumnPoint list"
  | OnClick string

datatype node =
    Text string
  | Element string "(string \<times> property) list" "node list"

text \<open>
  \<^verbatim>\<open>renderSection(id, title, content, defaultOpen)\<close>; \<open>expandedSections\<close> is the state
  of the component, the set of the identifiers of the open sections. The header with the
  title is always there; the content only in an open section.
\<close>

definition renderSection :: "string set \<Rightarrow> string \<Rightarrow> string \<Rightarrow> node \<Rightarrow> node" where
  "renderSection expandedSections ident title content =
     (let isOpen = ident \<in> expandedSections in
      Element ''div'' [(''className'', Str ''model-card-section''), (''key'', Str ident)]
        ([Element ''div''
            [(''className'', Str ''section-header''), (''onClick'', OnClick ident),
             (''style'', Style [(''cursor'', ''pointer'')])]
            [Element ''h2'' [] [Text title],
             Element ''span'' [(''className'', Str ''toggle-icon'')]
               [Text (if isOpen then [CHR 0xE2, CHR 0x96, CHR 0xBC] else [CHR 0xE2, CHR 0x96, CHR 0xB6])]]]
         @ (if isOpen then [Element ''div'' [(''className'', Str ''section-content'')] [content]]
            else [])))"

text \<open>The state in which the component starts.\<close>

definition initial_expandedSections :: "string set" where
  "initial_expandedSections = {''model-identification'', ''training-metrics'', ''model-quality''}"

subsection \<open>The model-quality section\<close>

text \<open>
  \<^verbatim>\<open>getQualityColor(assessment: string | null)\<close> and \<^verbatim>\<open>getSeverityColor(severity: string)\<close>
  of the component, with the colours of its table \<^verbatim>\<open>COLORS\<close>.
\<close>

definition getQualityColor :: "string option \<Rightarrow> string" where
  "getQualityColor a =
     (case a of
        None \<Rightarrow> ''#000''
      | Some s \<Rightarrow>
          if s = [] then ''#000''
          else
            let assessmentLower = toLowerCase s
            in if assessmentLower = ''excellent'' then ''#28a745''
               else if assessmentLower = ''good'' then ''#17a2b8''
               else if assessmentLower = ''fair'' then ''#ffc107''
               else if assessmentLower = ''poor'' then ''#fd7e14''
               else ''#000'')"

definition getSeverityColor :: "string \<Rightarrow> string" where
  "getSeverityColor s =
     (let severityLower = toLowerCase s
      in if severityLower = ''high'' then ''#dc3545''
         else if severityLower = ''moderate'' then ''#ffc107''
         else if severityLower = ''low'' then ''#17a2b8''
         else ''#000'')"

definition recommendation_item :: "nat \<Rightarrow> Recommendation \<Rightarrow> node" where
  "recommendation_item idx rec =
     Element ''li'' [(''key'', Num (Finite (of_nat idx))), (''style'', Style [(''marginBottom'', ''10px'')])]
       [Element ''strong'' [] [Text ''Issue:''], Text '' '', Text (issue rec),
        Element ''br'' [] [],
        Element ''strong'' [] [Text ''Suggestion:''], Text '' '', Text (suggestion rec)]"

definition warning_item :: "nat \<Rightarrow> Warning \<Rightarrow> node" where
  "warning_item idx w =
     Element ''div'' [(''key'', Num (Finite (of_nat idx))), (''className'', Str ''warning-item'')]
       ([Element ''div'' [(''className'', Str ''warning-header'')]
           [Element ''span''
              [(''className'', Str ''badge''),
               (''style'', Style [(''backgroundColor'', getSeverityColor (severity w))])]
              [Text (severity w)],
            Element ''strong'' [] [Text (warning_type w)]],
         Element ''div'' [] [Text (message w)]]
        @ (case recommendation w of
             None \<Rightarrow> []
           | Some r \<Rightarrow>
               if r = [] then []
               else [Element ''div'' [(''style'', Style [(''marginTop'', ''10px'')])]
                       [Element ''strong'' [] [Text ''Recommendation:''], Text '' '', Text r]]))"

definition indexed :: "'a list \<Rightarrow> (nat \<times> 'a) list" where
  "indexed xs = zip [0 ..< length xs] xs"

definition modelQualitySection :: "string set \<Rightarrow> ModelCardData \<Rightarrow> node" where
  "modelQualitySection expandedSections data =
     (let mq = model_quality data in
      renderSection expandedSections ''model-quality'' ''Model Quality''
        (Element ''div'' []
           ((case assessment mq of
               None \<Rightarrow> []
             | Some a \<Rightarrow>
                 if a = [] then []
                 else [Element ''div'' []
                         [Element ''h3'' [] [Text ''Assessment''],
                          Element ''span''
                            [(''className'', Str ''badge''),
                             (''style'', Style [(''backgroundColor'', getQualityColor (assessment mq))])]
                            [Text a]]])
            @ (case recommendations mq of
                 None \<Rightarrow> []
               | Some recs \<Rightarrow>
                   if 0 < length recs
                   then [Element ''div'' []
                           [Element ''h3'' [] [Text ''Recommendations''],
                            Element ''ul'' [] (map (\<lambda>(idx, rec). recommendation_item idx rec) (indexed recs))]]
                   else [])
            @ (if 0 < length (warnings mq)
               then [Element ''div'' []
                       (Element ''h3'' [] [Text ''Warnings'']
                        # map (\<lambda>(idx, w). warning_item idx w) (indexed (warnings mq)))]
               else []))))"

subsection \<open>The column-statistics section\<close>

definition jsval_of :: "number option \<Rightarrow> jsval" where
  "jsval_of m = (case m of None \<Rightarrow> JNull | Some x \<Rightarrow> JNum x)"

definition column_row :: "string \<times> ColumnStats \<Rightarrow> error + node" where
  "column_row entry =
     (case entry of (column, stats) \<Rightarrow>
        thenE (formatValue (jsval_of (mutual_information_bits stats)) None) (\<lambda>mi.
        thenE (formatValue (jsval_of (marginal_loss stats)) None) (\<lambda>ml.
          Inr (Element ''tr'' [(''key'', Str column)]
                 [Element ''td'' [] [Element ''strong'' [] [Text column]],
                  Element ''td'' [] [Text mi],
                  Element ''td'' [] [Text ml]]))))"

definition column_chart :: "ColumnPoint list \<Rightarrow> node" where
  "column_chart series =
     Element ''ResponsiveContainer'' [(''width'', Str ''100%''), (''height'', Num (Finite 400))]
       [Element ''BarChart'' [(''data'', Series series)]
          [Element ''CartesianGrid'' [(''strokeDasharray'', Str ''3 3'')] [],
           Element ''XAxis''
             [(''dataKey'', Str ''name''), (''angle'', Num (Finite (- 45))),
              (''textAnchor'', Str ''end''), (''height'', Num (Finite 100))] [],
           Element ''YAxis'' [] [],
           Element ''Tooltip'' [] [],
           Element ''Legend'' [] [],
           Element ''Bar''
             [(''dataKey'', Str ''mutualInfo''), (''fill'', Str ''#333''),
              (''name'', Str ''Mutual Information (bits)'')] []]]"

text \<open>
  \<^verbatim>\<open>data.column_statistics && Object.keys(data.column_statistics).length > 0 && renderSection(...)\<close>:
  \<open>None\<close> is the value undefined or false of the guard, which renders nothing.
\<close>

definition columnStatisticsSection :: "string set \<Rightarrow> ModelCardData \<Rightarrow> error + node option" where
  "columnStatisticsSection expandedSections data =
     (case column_statistics data of
        None \<Rightarrow> Inr None
      | Some columns \<Rightarrow>
          if 0 < length (map fst columns)
          then
            thenE (sequenceE (map column_row columns)) (\<lambda>rows.
              Inr (Some
                (renderSection expandedSections ''column-statistics'' ''Column Statistics''
                   (Element ''div'' []
                      [Element ''div'' [(''className'', Str ''chart-container'')]
                         (Element ''h3'' [] [Text ''Mutual Information by Column'']
                          # (case columnStatisticsData data of
                               None \<Rightarrow> []
                             | Some series \<Rightarrow> [column_chart series])),
                       Element ''table'' [(''className'', Str ''data-table'')]
                         [Element ''thead'' []
                            [Element ''tr'' []
                               [Element ''th'' [] [Text ''Column''],
                                Element ''th'' [] [Text ''Mutual Information (bits)''],
                                Element ''th'' [] [Text ''Marginal Loss'']]],
                          Element ''tbody'' [] rows]]))))
          else Inr None)"

subsection \<open>The session identifier\<close>


section \<open>Well-formed numbers of a document\<close>

text \<open>
  A finite number of a document is a double: a rational that \<open>round_double\<close> leaves as
  it is. A number field of a JSON document is null or such a number.
\<close>

definition is_double :: "rat \<Rightarrow> bool" where
  "is_double r \<longleftrightarrow> round_double r = Finite r"

fun json_number :: "number option \<Rightarrow> bool" where
  "json_number None = True"
| "json_number (Some (Finite r)) = is_double r"
| "json_number (Some x) = False"

definition finite_double :: "number \<Rightarrow> bool" where
  "finite_double x \<longleftrightarrow> (\<exists>r. x = Finite r \<and> is_double r)"

text \<open>The value of a finite number (0 for the others, which no document holds).\<close>

fun bits :: "number \<Rightarrow> rat" where
  "bits (Finite r) = r"
| "bits x = 0"

text \<open>The five metrics in the fixed order of the chart.\<close>

definition metric_values :: "ClassificationMetrics \<Rightarrow> (string \<times> number option) list" where
  "metric_values cm =
     [(''Accuracy'', accuracy cm), (''Precision'', precision cm), (''Recall'', recall cm),
      (''F1'', f1 cm), (''AUC'', auc cm)]"

section \<open>Example documents\<close>

text \<open>
  A card of a classifier with all five metrics, three features and twelve columns of
  statistics, two pairs of which tie and one of which has no mutual information.
\<close>

definition stats_of :: "number option \<Rightarrow> ColumnStats" where
  "stats_of m = \<lparr>mutual_information_bits = m, marginal_loss = None\<rparr>"

definition twelve_columns :: "(string \<times> ColumnStats) list" where
  "twelve_columns =
     [(''c01'', stats_of (Some (Finite (1 / 2)))),
      (''c02'', stats_of (Some (Finite (5 / 4)))),
      (''c03'', stats_of (Some (Finite (3 / 4)))),
      (''c04'', stats_of None),
      (''c05'', stats_of (Some (Finite 2))),
      (''c06'', stats_of (Some (Finite (1 / 2)))),
      (''c07'', stats_of (Some (Finite (1 / 8)))),
      (''c08'', stats_of (Some (Finite (5 / 4)))),
      (''c09'', stats_of (Some (Finite 3))),
      (''c10'', stats_of (Some (Finite (1 / 4)))),
      (''c11'', stats_of (Some (Finite 1))),
      (''c12'', stats_of (Some (Finite (1 / 16))))]"

definition sample_metrics :: ClassificationMetrics where
  "sample_metrics =
     \<lparr>accuracy = Some (lit (925 / 1000)), precision = Some (lit (912 / 1000)),
      recall = Some (lit (887 / 1000)), f1 = Some (lit (899 / 1000)),
      auc = Some (lit (967 / 1000)), is_binary = True\<rparr>"

definition sample_card :: ModelCardData where
  "sample_card =
     \<lparr>model_identification =
        \<lparr>session_id = ''5f2c9d1e-7a44-4c1b-9a52-3d8e6b0f1c77'', job_id = ''job-001'',
         name = ''churn'', target_column = Some ''churned'', target_column_type = Some ''set'',
         compute_cluster = ''burrito'', training_date = ''2025-01-15'', status = ''DONE'',
         model_type = ''Single Predictor'', framework = ''FeatrixSphere''\<rparr>,
      training_metrics =
        \<lparr>classification_metrics = Some sample_metrics\<rparr>,
      feature_inventory =
        [\<lparr>feature_name = ''age'', feature_type = ''scalar'', encoder_type = ''ScalarEncoder''\<rparr>,
         \<lparr>feature_name = ''plan'', feature_type = ''set'', encoder_type = ''SetEncoder''\<rparr>,
         \<lparr>feature_name = ''income'', feature_type = ''scalar'', encoder_type = ''ScalarEncoder''\<rparr>],
      model_quality =
        \<lparr>assessment = None, recommendations = None, warnings = [],
         training_quality_warning = None\<rparr>,
      column_statistics = Some twelve_columns\<rparr>"

section \<open>The histogram, as the specification words it\<close>

text \<open>
  The distinct elements of a list in the order of their first occurrence (\<open>remdups\<close>
  keeps the last occurrence of each element, so on the reversed list it keeps the first).
  A plain key is a type string that is neither an array index nor the name of a property
  of \<^verbatim>\<open>Object.prototype\<close>.
\<close>

definition first_seen :: "'a list \<Rightarrow> 'a list" where
  "first_seen xs = rev (remdups (rev xs))"

definition plain_key :: "string \<Rightarrow> bool" where
  "plain_key k \<longleftrightarrow> array_index k = None \<and> k \<notin> set object_prototype_names"

definition type_histogram :: "string list \<Rightarrow> (string \<times> tally) list" where
  "type_histogram types = map (\<lambda>t. (t, Tally (Finite (of_nat (count_list types t))))) (first_seen types)"

text \<open>A card with two features whose types are the strings \<^verbatim>\<open>b\<close> and \<^verbatim>\<open>0\<close>.\<close>

definition indexed_card :: ModelCardData where
  "indexed_card =
     sample_card
       \<lparr>feature_inventory :=
          [\<lparr>feature_name = ''region'', feature_type = ''b'', encoder_type = ''SetEncoder''\<rparr>,
           \<lparr>feature_name = ''segment'', feature_type = ''0'', encoder_type = ''SetEncoder''\<rparr>]\<rparr>"

section \<open>Documents with absent and null fields\<close>

text \<open>
  A document as the claims on missing data mean it: an object in which each section that
  the standalone renderer reads is absent, null or an object, and each field that it reads
  is absent, null or of the type that the schema gives it (a text, a number, a list of
  warnings).
\<close>

fun text_field :: "jsval \<Rightarrow> bool" where
  "text_field JUndefined = True"
| "text_field JNull = True"
| "text_field (JStr s) = True"
| "text_field v = False"

fun number_field :: "jsval \<Rightarrow> bool" where
  "number_field JUndefined = True"
| "number_field JNull = True"
| "number_field (JNum x) = True"
| "number_field v = False"

fun object_with :: "((string \<times> jsval) list \<Rightarrow> bool) \<Rightarrow> jsval \<Rightarrow> bool" where
  "object_with ok (JObj ps) = ok ps"
| "object_with ok v = False"

fun absent_or :: "(jsval \<Rightarrow> bool) \<Rightarrow> jsval \<Rightarrow> bool" where
  "absent_or ok JUndefined = True"
| "absent_or ok JNull = True"
| "absent_or ok v = ok v"

definition fields :: "(jsval \<Rightarrow> bool) \<Rightarrow> string list \<Rightarrow> (string \<times> jsval) list \<Rightarrow> bool" where
  "fields ok ks ps = list_all (\<lambda>k. ok (lookup ps k)) ks"

definition warning_ok :: "jsval \<Rightarrow> bool" where
  "warning_ok = object_with (fields text_field [''severity'', ''type'', ''message''])"

fun warning_list :: "jsval \<Rightarrow> bool" where
  "warning_list (JArr ws) = list_all warning_ok ws"
| "warning_list v = False"

definition model_identification_ok :: "jsval \<Rightarrow> bool" where
  "model_identification_ok =
     absent_or (object_with (fields text_field
       [''name'', ''session_id'', ''job_id'', ''status'', ''compute_cluster'', ''training_date'',
        ''model_type'', ''target_column'', ''target_column_type'', ''framework'']))"

definition training_dataset_ok :: "jsval \<Rightarrow> bool" where
  "training_dataset_ok =
     absent_or (object_with (\<lambda>ps.
       fields number_field [''train_rows'', ''total_features''] ps
       \<and> fields text_field [''target_column''] ps))"

definition training_metrics_ok :: "jsval \<Rightarrow> bool" where
  "training_metrics_ok =
     absent_or (object_with (\<lambda>ps.
       absent_or (object_with (fields number_field [''precision'', ''recall'', ''f1'', ''auc'']))
         (lookup ps ''classification_metrics'')))"

definition model_quality_ok :: "jsval \<Rightarrow> bool" where
  "model_quality_ok =
     absent_or (object_with (\<lambda>ps.
       text_field (lookup ps ''assessment'') \<and> absent_or warning_list (lookup ps ''warnings'')))"

definition document :: "jsval \<Rightarrow> bool" where
  "document =
     object_with (\<lambda>ps.
       model_identification_ok (lookup ps ''model_identification'')
       \<and> training_dataset_ok (lookup ps ''training_dataset'')
       \<and> training_metrics_ok (lookup ps ''training_metrics'')
       \<and> model_quality_ok (lookup ps ''model_quality''))"

text \<open>A call returns when it does not raise.\<close>

definition returns :: "error + 'a \<Rightarrow> bool" where
  "returns m \<longleftrightarrow> \<not> isl m"

text \<open>\<open>contains sub s\<close>: the text \<open>sub\<close> occurs in \<open>s\<close>.\<close>

fun contains :: "string \<Rightarrow> string \<Rightarrow> bool" where
  "contains sub [] = (sub = [])"
| "contains sub (c # s) = (take (length sub) (c # s) = sub \<or> contains sub s)"

text \<open>The model-quality section and the metrics section of the page with nothing in them.\<close>

definition empty_model_quality :: string where
  "empty_model_quality = fill model_quality_open [] @ fill section_close []"

definition empty_training_metrics :: string where
  "empty_training_metrics = fill training_metrics_open [] @ fill section_close []"

text \<open>
  The model type that the standalone renderer compares:
  \<^verbatim>\<open>(data.model_identification || {}).model_type || ''\<close>.
\<close>

definition modelType_of :: "jsval \<Rightarrow> error + jsval" where
  "modelType_of data =
     thenE (get data ''model_identification'') (\<lambda>v.
     thenE (get (or_else v (JObj [])) ''model_type'') (\<lambda>v. Inr (or_else v (JStr []))))"

section \<open>Example documents for the renderers\<close>

definition noon :: date where
  "noon = \<lparr>getFullYear = 2026, getMonth = 10, getDate = 2, getHours = 12, getMinutes = 0, getSeconds = 5\<rparr>"

definition a_second_later :: date where
  "a_second_later = noon\<lparr>getSeconds := 6\<rparr>"

text \<open>
  A document whose model quality has no assessment, no recommendations and no warnings,
  whose session identifier is null and which has no training dataset; its model type is
  written in lower case.
\<close>

definition sparse_document :: jsval where
  "sparse_document =
     JObj [(''model_identification'',
              JObj [(''name'', JStr ''churn''), (''session_id'', JNull), (''status'', JStr ''done''),
                    (''model_type'', JStr ''single predictor'')]),
           (''training_metrics'',
              JObj [(''classification_metrics'',
                       JObj [(''precision'', JNum (lit (912 / 1000))), (''recall'', JNull)])]),
           (''model_quality'',
              JObj [(''assessment'', JNull), (''recommendations'', JNull), (''warnings'', JArr [])])]"

text \<open>
  The example card with an empty column-statistics map, and the example card with its
  model type in lower case and as the short code.
\<close>

definition quiet_card :: ModelCardData where
  "quiet_card = sample_card\<lparr>column_statistics := Some []\<rparr>"

definition lowercase_card :: ModelCardData where
  "lowercase_card =
     sample_card\<lparr>model_identification := (model_identification sample_card)\<lparr>model_type := ''single predictor''\<rparr>\<rparr>"

definition short_code_card :: ModelCardData where
  "short_code_card =
     sample_card\<lparr>model_identification := (model_identification sample_card)\<lparr>model_type := ''sp''\<rparr>\<rparr>"

text \<open>The example card without a column-statistics map.\<close>

definition no_statistics_card :: ModelCardData where
  "no_statistics_card = sample_card\<lparr>column_statistics := None\<rparr>"

text \<open>
  The example card with no precision and a recall of zero, and the example card with an
  accuracy below zero.
\<close>

definition partial_card :: ModelCardData where
  "partial_card =
     sample_card\<lparr>training_metrics :=
       \<lparr>classification_metrics =
          Some (sample_metrics\<lparr>precision := None, recall := Some (Finite 0)\<rparr>)\<rparr>\<rparr>"

definition negative_card :: ModelCardData where
  "negative_card =
     sample_card\<lparr>training_metrics :=
       \<lparr>classification_metrics = Some (sample_metrics\<lparr>accuracy := Some (Finite (- 1 / 2))\<rparr>)\<rparr>\<rparr>"


definition classifier_document :: jsval where
  "classifier_document =
     JObj [(''model_identification'', JObj [(''model_type'', JStr ''Single Predictor'')]),
           (''training_metrics'',
              JObj [(''classification_metrics'',
                       JObj [(''precision'', JNum (lit (912 / 1000))), (''recall'', JNull)])])]"
section \<open>Properties\<close>

lemma toLowerCase_Nil_iff: "toLowerCase s = [] \<longleftrightarrow> s = []"
  by (simp add: toLowerCase_def)

lemma toLowerCase_Nil: "toLowerCase [] = []"
  by (simp add: toLowerCase_def)

text \<open>
  C6, as the code has it. With case-insensitive matching on both arguments: the model
  types "embedding space" and "es" display as "Foundational Embedding Space"; "single
  predictor" and "sp" display as "Classifier" for the target type "set", as "Regression"
  for "scalar" and as "Single Predictor" for any other target type, null included; every
  other model type that is not empty is returned unchanged, and the empty model type
  displays as "N/A".
\<close>

theorem getModelTypeDisplay_cases:
  fixes mt :: string and tt :: "string option"
  shows
  "(toLowerCase mt \<in> {''embedding space'', ''es''} \<longrightarrow>
      getModelTypeDisplay mt tt = ''Foundational Embedding Space'')
   \<and> (toLowerCase mt \<in> {''single predictor'', ''sp''} \<longrightarrow>
      getModelTypeDisplay mt tt =
        (case map_option toLowerCase tt of
           None \<Rightarrow> ''Single Predictor''
         | Some t \<Rightarrow> if t = ''set'' then ''Classifier''
                     else if t = ''scalar'' then ''Regression''
                     else ''Single Predictor''))
   \<and> (toLowerCase mt \<notin> {''embedding space'', ''es'', ''single predictor'', ''sp''} \<longrightarrow>
      getModelTypeDisplay mt tt = (if mt = [] then ''N/A'' else mt))"
proof -
  have ne: "toLowerCase mt \<in> {''embedding space'', ''es'', ''single predictor'', ''sp''}
            \<Longrightarrow> mt \<noteq> []"
    by (auto simp: toLowerCase_def)
  show ?thesis
  proof (cases tt)
    case None
    then show ?thesis
      using ne by (auto simp: getModelTypeDisplay_def Let_def toLowerCase_Nil)
  next
    case (Some t)
    then show ?thesis
      using ne by (auto simp: getModelTypeDisplay_def Let_def toLowerCase_Nil_iff)
  qed
qed

theorem getModelTypeDisplay_cases_witness:
  "getModelTypeDisplay ''Embedding Space'' None = ''Foundational Embedding Space''
   \<and> getModelTypeDisplay ''Single Predictor'' (Some ''set'') = ''Classifier''
   \<and> getModelTypeDisplay ''single predictor'' (Some ''scalar'') = ''Regression''
   \<and> getModelTypeDisplay ''SP'' None = ''Single Predictor''
   \<and> getModelTypeDisplay ''Anomaly Detector'' (Some ''set'') = ''Anomaly Detector''"
  using getModelTypeDisplay_cases [of "''Embedding Space''" None]
    getModelTypeDisplay_cases [of "''Single Predictor''" "Some ''set''"]
    getModelTypeDisplay_cases [of "''single predictor''" "Some ''scalar''"]
    getModelTypeDisplay_cases [of "''SP''" None]
    getModelTypeDisplay_cases [of "''Anomaly Detector''" "Some ''set''"]
  by (simp add: toLowerCase_def toLowerChar_def upper_letters_def lower_letters_def)

theorem getModelTypeDisplay_empty_counterexample:
  "toLowerCase [] \<notin> {''embedding space'', ''es'', ''single predictor'', ''sp''}
   \<and> getModelTypeDisplay [] None = ''N/A''
   \<and> getModelTypeDisplay [] None \<noteq> []"
  by (simp add: getModelTypeDisplay_def toLowerCase_def)

subsection \<open>Evaluating powers\<close>

lemma ipow_eq: "ipow b e = b ^ nat e"
proof (induction b e rule: ipow.induct)
  case (1 b e)
  show ?case
  proof (cases "e \<le> 0")
    case True
    then show ?thesis by (subst ipow.simps) simp
  next
    case False
    then have pos: "0 < e" by simp
    have half: "nat e = 2 * nat (e div 2) + (if even e then 0 else 1)"
      using pos by (auto elim!: evenE oddE simp: nat_mult_distrib nat_add_distrib)
    have sq: "(b * b) ^ nat (e div 2) = b ^ (2 * nat (e div 2))"
      by (simp add: power_mult power2_eq_square)
    show ?thesis
    proof (cases "even e")
      case True
      with 1 False half sq show ?thesis by (subst ipow.simps) simp
    next
      case odd: False
      with 1 False half sq show ?thesis by (subst ipow.simps) simp
    qed
  qed
qed

lemma pw_code [code]: "pw b e = (if 0 \<le> e then ipow b e else 1 / ipow b (- e))"
  by (simp add: pw_def ipow_eq)

subsection \<open>Decimal digits\<close>

lemma length_last_digits [simp]: "length (last_digits f n) = f"
  by (induction f arbitrary: n) auto

lemma last_digits_zero: "last_digits f 0 = replicate f CHR ''0''"
  by (induction f) (auto simp: digit_char_def replicate_append_same)

lemma decimal_small: "n < 10 \<Longrightarrow> decimal n = [digit_char n]"
  by (subst decimal.simps) simp

lemma decimal_big: "10 \<le> n \<Longrightarrow> decimal n = decimal (n div 10) @ [digit_char (n mod 10)]"
  by (subst decimal.simps) simp

lemma decimal_nonempty [simp]: "decimal n \<noteq> []"
  by (subst decimal.simps) simp

lemma digit_char_is_digit: "digit_char d \<in> set ''0123456789''"
  by (simp add: digit_char_def)

lemma decimal_digits: "set (decimal n) \<subseteq> set ''0123456789''"
proof (induction n rule: decimal.induct)
  case (1 n)
  show ?case
  proof (cases "n < 10")
    case True
    then show ?thesis using digit_char_is_digit [of n] by (simp add: decimal_small)
  next
    case False
    then show ?thesis
      using 1 digit_char_is_digit [of "n mod 10"] by (simp add: decimal_big)
  qed
qed

lemma last_digits_digits: "set (last_digits f n) \<subseteq> set ''0123456789''"
proof (induction f arbitrary: n)
  case 0
  then show ?case by simp
next
  case (Suc f)
  then show ?case using digit_char_is_digit [of "n mod 10"] by simp
qed

lemma pad_last_digits:
  "0 \<le> n \<Longrightarrow> n < 10 ^ Suc f \<Longrightarrow>
   replicate (Suc f - length (decimal n)) CHR ''0'' @ decimal n = last_digits (Suc f) n"
proof (induction f arbitrary: n)
  case 0
  then show ?case by (simp add: decimal_small)
next
  case (Suc f)
  show ?case
  proof (cases "n < 10")
    case True
    then have "n div 10 = 0" "n mod 10 = n" using Suc.prems by auto
    then show ?thesis using True
      by (simp add: decimal_small last_digits_zero replicate_append_same)
  next
    case False
    then have big: "10 \<le> n" by simp
    have "0 \<le> n div 10" "n div 10 < 10 ^ Suc f"
      using Suc.prems by auto
    from Suc.IH [OF this] show ?thesis
      by (simp add: decimal_big [OF big])
  qed
qed

lemma length_decimal_le:
  "0 \<le> n \<Longrightarrow> length (decimal n) \<le> Suc f \<longleftrightarrow> n < 10 ^ Suc f"
proof (induction f arbitrary: n)
  case 0
  show ?case
  proof (cases "n < 10")
    case True
    then show ?thesis by (simp add: decimal_small)
  next
    case False
    then have big: "10 \<le> n" by simp
    have "length (decimal (n div 10)) \<noteq> 0" by simp
    then show ?thesis
      using False by (simp add: decimal_big [OF big])
  qed
next
  case (Suc f)
  show ?case
  proof (cases "n < 10")
    case True
    moreover have "(10::int) \<le> 10 ^ Suc (Suc f)" by (rule self_le_power) auto
    ultimately have "n < 10 ^ Suc (Suc f)" by linarith
    then show ?thesis using True by (simp add: decimal_small)
  next
    case False
    then have big: "10 \<le> n" by simp
    have nn: "0 \<le> n div 10" using Suc.prems by simp
    have "\<And>k::int. n div 10 < k \<longleftrightarrow> n < 10 * k" by presburger
    then have "n div 10 < 10 ^ Suc f \<longleftrightarrow> n < 10 ^ Suc (Suc f)" by simp
    with Suc.IH [OF nn] show ?thesis
      by (simp add: decimal_big [OF big])
  qed
qed

lemma decimal_split:
  "10 ^ f \<le> n \<Longrightarrow> decimal n = decimal (n div 10 ^ f) @ last_digits f n"
proof (induction f arbitrary: n)
  case 0
  then show ?case by simp
next
  case (Suc f)
  have "(10::int) \<le> 10 ^ Suc f" by (rule self_le_power) auto
  with Suc.prems have big: "10 \<le> n" by linarith
  have "\<And>k::int. k \<le> n div 10 \<longleftrightarrow> 10 * k \<le> n" by presburger
  then have "10 ^ f \<le> n div 10" using Suc.prems by simp
  from Suc.IH [OF this] show ?case
    by (simp add: decimal_big [OF big] zdiv_zmult2_eq mult.commute)
qed

subsection \<open>toFixed and the replacement\<close>

lemma decimal_zero: "decimal 0 = ''0''"
  by (simp add: decimal_small digit_char_def)

lemma fixed_digits_eq:
  assumes "0 \<le> a" and "0 < f"
  shows "fixed_digits a f =
           decimal (\<lfloor>a * 10 ^ f + 1 / 2\<rfloor> div 10 ^ f) @ ''.'' @ last_digits f \<lfloor>a * 10 ^ f + 1 / 2\<rfloor>"
proof -
  define n where "n = \<lfloor>a * 10 ^ f + 1 / 2\<rfloor>"
  have n0: "0 \<le> n" using assms by (simp add: n_def)
  obtain g where f: "f = Suc g" using assms by (cases f) auto
  define m0 where "m0 = (if n = 0 then ''0'' else decimal n)"
  have m0: "m0 = decimal n" by (simp add: m0_def decimal_zero)
  define m where "m = (if length m0 \<le> f then replicate (f + 1 - length m0) CHR ''0'' @ m0 else m0)"
  have fd: "fixed_digits a f = take (length m - f) m @ ''.'' @ drop (length m - f) m"
    using assms by (simp add: fixed_digits_def Let_def n_def m_def m0_def)
  have split: "m = decimal (n div 10 ^ f) @ last_digits f n"
  proof (cases "n < 10 ^ f")
    case True
    then have le: "length (decimal n) \<le> f"
      using length_decimal_le [OF n0, of g] by (simp add: f)
    have "replicate (f - length (decimal n)) CHR ''0'' @ decimal n = last_digits f n"
      using pad_last_digits [OF n0, of g] True by (simp add: f)
    moreover have "f + 1 - length (decimal n) = Suc (f - length (decimal n))"
      using le by simp
    moreover have "n div 10 ^ f = 0" using True n0 by simp
    ultimately show ?thesis
      using le by (simp add: m_def m0 decimal_zero)
  next
    case False
    then have ge: "10 ^ f \<le> n" by simp
    then have "\<not> length (decimal n) \<le> f"
      using length_decimal_le [OF n0, of g] by (simp add: f)
    then show ?thesis
      using decimal_split [OF ge] by (simp add: m_def m0)
  qed
  show ?thesis
    unfolding fd n_def [symmetric] by (simp add: split)
qed

lemma ToIntegerOrInfinity_of_nat: "ToIntegerOrInfinity (Finite (of_nat p)) = Some (int p)"
  by simp

lemma toFixed_fixed_point:
  assumes "\<bar>v\<bar> < 10 ^ 21" and "0 < p" and "p \<le> 100"
  shows "toFixed (Finite v) (Finite (of_nat p)) = Inr (fixed_point v p)"
  using assms fixed_digits_eq [of "\<bar>v\<bar>" p]
  by (simp add: toFixed_def Let_def fixed_point_def sign_text_def scaled_def)

lemma strip_zeros_Cons:
  "strip_zeros (c # cs) = (if \<forall>x \<in> set (c # cs). x = CHR ''0'' then [] else c # strip_zeros cs)"
proof (cases "\<forall>x \<in> set cs. x = CHR ''0''")
  case True
  then have "dropWhile (\<lambda>c. c = CHR ''0'') (rev cs) = []" by simp
  then show ?thesis using True by (simp add: strip_zeros_def dropWhile_append)
next
  case False
  then have "dropWhile (\<lambda>c. c = CHR ''0'') (rev cs) \<noteq> []" by simp
  then show ?thesis using False by (auto simp: strip_zeros_def dropWhile_append)
qed

lemma strip_zeros_Nil [simp]: "strip_zeros [] = []"
  by (simp add: strip_zeros_def)

lemma replace_no_point:
  "CHR ''.'' \<notin> set s \<Longrightarrow> replace_trailing_zeros s = strip_zeros s"
proof (induction s)
  case Nil
  then show ?case by simp
next
  case (Cons c cs)
  then show ?case
    by (auto simp: strip_zeros_Cons match_here_def zeros_to_end_def)
qed

lemma replace_before_point:
  "CHR ''.'' \<notin> set ip \<Longrightarrow>
   replace_trailing_zeros (ip @ CHR ''.'' # fp) = ip @ replace_trailing_zeros (CHR ''.'' # fp)"
proof (induction ip)
  case Nil
  then show ?case by simp
next
  case (Cons c cs)
  then have "\<not> match_here ((c # cs) @ CHR ''.'' # fp)"
    by (auto simp: match_here_def zeros_to_end_def)
  with Cons show ?case by simp
qed

lemma replace_fixed:
  assumes "CHR ''.'' \<notin> set ip" and "CHR ''.'' \<notin> set fp" and "fp \<noteq> []"
  shows "replace_trailing_zeros (ip @ ''.'' @ fp) =
           ip @ (if strip_zeros fp = [] then [] else ''.'' @ strip_zeros fp)"
proof -
  have all0: "strip_zeros fp = [] \<longleftrightarrow> (\<forall>x \<in> set fp. x = CHR ''0'')"
    by (simp add: strip_zeros_def)
  show ?thesis
  proof (cases "\<forall>x \<in> set fp. x = CHR ''0''")
    case True
    then have "match_here (CHR ''.'' # fp)"
      using assms by (simp add: match_here_def zeros_to_end_def)
    then show ?thesis
      using True all0 replace_before_point [OF assms(1), of fp] by simp
  next
    case False
    then have "\<not> match_here (CHR ''.'' # fp)"
      by (auto simp: match_here_def zeros_to_end_def)
    then show ?thesis
      using False all0 replace_before_point [OF assms(1), of fp] replace_no_point [OF assms(2)]
      by simp
  qed
qed

lemma digits_no_point: "set s \<subseteq> set ''0123456789'' \<Longrightarrow> CHR ''.'' \<notin> set s"
  by auto

lemma replace_fixed_point:
  assumes "0 < p"
  shows "replace_trailing_zeros (fixed_point v p) = fixed_point_stripped v p"
proof -
  have 1: "CHR ''.'' \<notin> set (sign_text v @ decimal (scaled v p div 10 ^ p))"
    using digits_no_point [OF decimal_digits, of "scaled v p div 10 ^ p"]
    by (simp add: sign_text_def)
  have 2: "CHR ''.'' \<notin> set (last_digits p (scaled v p))"
    using digits_no_point [OF last_digits_digits] .
  have 3: "last_digits p (scaled v p) \<noteq> []"
    using assms length_last_digits [of p "scaled v p"] by (cases "last_digits p (scaled v p)") auto
  show ?thesis
    using replace_fixed [OF 1 2 3]
    by (simp add: fixed_point_def fixed_point_stripped_def Let_def)
qed

subsection \<open>Rounding to a double keeps the sign of a difference of doubles\<close>

lemma pw_powi: "pw b e = b powi e"
  by (simp add: pw_def power_int_def inverse_eq_divide power_one_over)

lemma ndigits_pos: "0 < n \<Longrightarrow> 2 \<le> b \<Longrightarrow> ndigits b n = Suc (ndigits b (n div b))"
  by (subst ndigits.simps) simp

lemma ndigits_nonpos: "n \<le> 0 \<Longrightarrow> ndigits b n = 0"
  by (subst ndigits.simps) simp

lemma ndigits_bounds:
  "0 < n \<Longrightarrow> 2 \<le> b \<Longrightarrow> b ^ (ndigits b n - 1) \<le> n \<and> n < b ^ ndigits b n"
proof (induction b n rule: ndigits.induct)
  case (1 b n)
  have b: "0 < b" using 1 by simp
  have eq: "ndigits b n = Suc (ndigits b (n div b))"
    using 1 by (simp add: ndigits_pos)
  have dm: "n = b * (n div b) + n mod b" by simp
  have m: "0 \<le> n mod b" "n mod b < b" using b by simp_all
  show ?case
  proof (cases "n div b \<le> 0")
    case True
    have "0 \<le> n div b" using 1 b by (simp add: pos_imp_zdiv_nonneg_iff)
    with True have z: "n div b = 0" by simp
    then have "n < b" using dm m by simp
    then show ?thesis using 1 z by (simp add: eq ndigits_nonpos)
  next
    case False
    then have pos: "0 < n div b" by simp
    then have IH: "b ^ (ndigits b (n div b) - 1) \<le> n div b" "n div b < b ^ ndigits b (n div b)"
      using 1 by auto
    obtain k where k: "ndigits b (n div b) = Suc k"
      using pos 1 by (auto simp: ndigits_pos)
    have "b * b ^ k \<le> b * (n div b)" using IH(1) b by (simp add: k)
    also have "\<dots> \<le> n" using dm m by linarith
    finally have lo: "b ^ Suc k \<le> n" by simp
    have "n div b + 1 \<le> b ^ Suc k" using IH(2) by (simp add: k)
    then have "b * (n div b + 1) \<le> b * b ^ Suc k" using b by (simp only: mult_le_cancel_left_pos)
    moreover have "n < b * (n div b + 1)"
    proof -
      have "b * (n div b + 1) = b * (n div b) + b" by (simp add: algebra_simps)
      then show ?thesis using dm m by linarith
    qed
    ultimately have hi: "n < b ^ Suc (Suc k)" by simp
    show ?thesis using lo hi by (simp add: eq k)
  qed
qed

lemma floor_log_lower:
  assumes "0 < x" and "2 \<le> b"
  shows "pw (of_int b) (floor_log b x) \<le> x"
proof (cases "1 \<le> x")
  case True
  then have fl: "0 < \<lfloor>x\<rfloor>" by simp
  from ndigits_bounds [OF fl assms(2)] have lo: "b ^ (ndigits b \<lfloor>x\<rfloor> - 1) \<le> \<lfloor>x\<rfloor>" by simp
  have pos: "0 < ndigits b \<lfloor>x\<rfloor>" using fl assms(2) by (simp add: ndigits_pos)
  have "pw (of_int b) (floor_log b x) = of_int b ^ (ndigits b \<lfloor>x\<rfloor> - 1)"
    using True pos by (simp add: floor_log_def pw_def nat_diff_distrib')
  also have "\<dots> = of_int (b ^ (ndigits b \<lfloor>x\<rfloor> - 1))" by simp
  also have "\<dots> \<le> of_int \<lfloor>x\<rfloor>" using lo by (simp only: of_int_le_iff)
  also have "\<dots> \<le> x" by simp
  finally show ?thesis .
next
  case False
  then have x1: "x < 1" by simp
  define c where "c = \<lceil>1 / x\<rceil> - 1"
  define m where "m = ndigits b c"
  have "1 < 1 / x" using assms(1) x1 by simp
  then have "1 < \<lceil>1 / x\<rceil>" by (simp add: less_ceiling_iff)
  then have c: "0 < c" by (simp add: c_def)
  from ndigits_bounds [OF c assms(2)] have "c < b ^ m" by (simp add: m_def)
  then have "\<lceil>1 / x\<rceil> \<le> b ^ m" by (simp add: c_def)
  then have "1 / x \<le> of_int (b ^ m)" by (simp only: ceiling_le_iff)
  then have le: "1 / x \<le> of_int b ^ m" by simp
  have bm: "0 < (of_int b :: rat) ^ m" using assms(2) by simp
  have "1 / of_int b ^ m \<le> x"
    using le assms(1) bm by (simp add: field_simps)
  moreover have "pw (of_int b) (floor_log b x) = 1 / of_int b ^ m"
    using False by (simp add: floor_log_def pw_def c_def m_def)
  ultimately show ?thesis by simp
qed

lemma round_half_even_ge1: "1 \<le> r \<Longrightarrow> 1 \<le> round_half_even r"
proof -
  assume "1 \<le> r"
  then have "1 \<le> \<lfloor>r\<rfloor>" by simp
  then show ?thesis by (simp add: round_half_even_def Let_def)
qed

lemma round_half_even_nonneg: "0 \<le> r \<Longrightarrow> 0 \<le> round_half_even r"
proof -
  assume "0 \<le> r"
  then have "0 \<le> \<lfloor>r\<rfloor>" by simp
  then show ?thesis by (simp add: round_half_even_def Let_def)
qed

lemma pw_pos: "0 < b \<Longrightarrow> 0 < pw b e"
  by (simp add: pw_powi)

lemma round_double_positive:
  assumes "pw 2 (- 1074) \<le> x"
  shows "positive (round_double x)"
proof -
  have x: "0 < x" using assms pw_pos [of 2 "- 1074"] by simp
  define e where "e = max (floor_log 2 x - 52) (- 1074)"
  have "pw 2 e \<le> x"
  proof (cases "floor_log 2 x - 52 \<le> - 1074")
    case True
    then show ?thesis using assms by (simp add: e_def max_def)
  next
    case False
    then have "e = floor_log 2 x - 52" by (simp add: e_def max_def)
    then have "pw 2 e \<le> pw 2 (floor_log 2 x)"
      by (simp add: pw_powi power_int_increasing)
    also have "\<dots> \<le> x" using floor_log_lower [OF x, of 2] by simp
    finally show ?thesis .
  qed
  then have "1 \<le> x / pw 2 e" using pw_pos [of 2 e] by simp
  then have "1 \<le> round_half_even (x / pw 2 e)" by (rule round_half_even_ge1)
  then have "0 < (of_int (round_half_even (x / pw 2 e)) :: rat) * pw 2 e"
    using pw_pos [of 2 e] by simp
  then show ?thesis
    using x by (simp add: round_double_def Let_def e_def)
qed

lemma round_double_not_positive:
  assumes "x \<le> 0"
  shows "\<not> positive (round_double x)"
proof (cases "x = 0")
  case True
  then show ?thesis by (simp add: round_double_def)
next
  case False
  then have x: "x < 0" using assms by simp
  define e where "e = max (floor_log 2 \<bar>x\<bar> - 52) (- 1074)"
  have "0 \<le> \<bar>x\<bar> / pw 2 e" using pw_pos [of 2 e] by simp
  then have "0 \<le> round_half_even (\<bar>x\<bar> / pw 2 e)" by (rule round_half_even_nonneg)
  then have "0 \<le> (of_int (round_half_even (\<bar>x\<bar> / pw 2 e)) :: rat) * pw 2 e"
    using pw_pos [of 2 e] by simp
  then show ?thesis
    using x by (simp add: round_double_def Let_def e_def)
qed

lemma round_double_grid:
  assumes "round_double r = Finite s"
  shows "\<exists>N::int. s = of_int N * pw 2 (- 1074)"
proof (cases "r = 0")
  case True
  then have "s = 0" using assms by (simp add: round_double_def)
  then have "s = of_int 0 * pw 2 (- 1074)" by simp
  then show ?thesis by blast
next
  case False
  define e where "e = max (floor_log 2 \<bar>r\<bar> - 52) (- 1074)"
  define n where "n = round_half_even (\<bar>r\<bar> / pw 2 e)"
  have e: "- 1074 \<le> e" by (simp add: e_def)
  have s: "s = (if r < 0 then - (of_int n * pw 2 e) else of_int n * pw 2 e)"
    using assms False by (auto simp: round_double_def Let_def e_def n_def split: if_splits)
  have "(2::rat) powi e = 2 powi (e + 1074) * 2 powi (- 1074)"
    using power_int_add [of "2::rat" "e + 1074" "- 1074"] by simp
  moreover have "(2::rat) powi (e + 1074) = of_int (2 ^ nat (e + 1074))"
    using e by (simp add: power_int_nonneg_exp)
  ultimately have pe: "pw 2 e = of_int (2 ^ nat (e + 1074)) * pw 2 (- 1074)"
    by (simp only: pw_powi)
  show ?thesis
  proof (cases "r < 0")
    case True
    then have "s = of_int (- (n * 2 ^ nat (e + 1074))) * pw 2 (- 1074)"
      using s pe by simp
    then show ?thesis by blast
  next
    case False
    then have "s = of_int (n * 2 ^ nat (e + 1074)) * pw 2 (- 1074)"
      using s pe by simp
    then show ?thesis by blast
  qed
qed

lemma double_gap:
  assumes "is_double a" and "is_double b" and "a < b"
  shows "pw 2 (- 1074) \<le> b - a"
proof -
  obtain A :: int where A: "a = of_int A * pw 2 (- 1074)"
    using round_double_grid assms(1) unfolding is_double_def by blast
  obtain B :: int where B: "b = of_int B * pw 2 (- 1074)"
    using round_double_grid assms(2) unfolding is_double_def by blast
  have g: "0 < pw 2 (- 1074)" by (rule pw_pos) simp
  have "A < B" using assms(3) g unfolding A B by (simp add: mult_less_cancel_right)
  then have "1 \<le> B - A" by simp
  then have "(1::rat) \<le> of_int (B - A)" by (simp only: of_int_1_le_iff)
  then have "1 * pw 2 (- 1074) \<le> of_int (B - A) * pw 2 (- 1074)"
    using g by (simp only: mult_le_cancel_right_pos)
  then show ?thesis unfolding A B by (simp add: algebra_simps)
qed

lemma minus_positive_iff:
  assumes "is_double a" and "is_double b"
  shows "positive (minus (Finite b) (Finite a)) \<longleftrightarrow> a < b"
proof (cases "a < b")
  case True
  then show ?thesis
    using round_double_positive [OF double_gap [OF assms True]] by simp
next
  case False
  then have "b - a \<le> 0" by simp
  then show ?thesis
    using round_double_not_positive [of "b - a"] False by simp
qed

lemma is_double_zero: "is_double 0"
  by (simp add: is_double_def round_double_def)

lemma or_zero_finite_double: "json_number x \<Longrightarrow> finite_double (or_zero x)"
  by (cases x rule: json_number.cases) (auto simp: or_zero_def finite_double_def is_double_zero)

lemma compare_positive_iff:
  assumes "finite_double x" and "finite_double y"
  shows "positive (minus y x) \<longleftrightarrow> bits x < bits y"
  using assms minus_positive_iff by (auto simp: finite_double_def)

lemma insert_sorted_insort:
  assumes "finite_double (f x)" and "\<forall>y \<in> set ys. finite_double (f y)"
  shows "insert_sorted (\<lambda>a b. minus (f b) (f a)) x ys = insort_key (\<lambda>p. - bits (f p)) x ys"
  using assms
proof (induction ys)
  case Nil
  then show ?case by simp
next
  case (Cons y ys)
  then show ?case
    using compare_positive_iff [of "f x" "f y"] by auto
qed

lemma sort_by_sort_key:
  assumes "\<forall>y \<in> set xs. finite_double (f y)"
  shows "sort_by (\<lambda>a b. minus (f b) (f a)) xs = sort_key (\<lambda>p. - bits (f p)) xs"
  using assms
proof (induction xs)
  case Nil
  then show ?case by (simp add: sort_by_def)
next
  case (Cons x xs)
  then have IH: "sort_by (\<lambda>a b. minus (f b) (f a)) xs = sort_key (\<lambda>p. - bits (f p)) xs"
    by simp
  have "\<forall>y \<in> set (sort_key (\<lambda>p. - bits (f p)) xs). finite_double (f y)"
    using Cons.prems by simp
  then show ?case
    using insert_sorted_insort [of f x "sort_key (\<lambda>p. - bits (f p)) xs"] Cons.prems IH
    by (simp add: sort_by_def sort_key_def)
qed

subsection \<open>Formatting a number\<close>

text \<open>
  C7, as the code has it. For every finite number \<open>v\<close> of magnitude below \<open>10^21\<close> and
  every whole precision \<open>p\<close> from 1 to 100, \<^verbatim>\<open>toFixed\<close> gives the fixed-point rendering
  of \<open>v\<close> to \<open>p\<close> digits, and \<^verbatim>\<open>formatValue\<close>, in the React component and in the
  standalone renderer, gives that rendering with the zeros at the end of the fraction
  stripped, and the point stripped with them when the rendering is a whole number.
\<close>

theorem formatValue_fixed_point:
  assumes "\<bar>v\<bar> < 10 ^ 21" and "0 < p" and "p \<le> 100"
  shows "toFixed (Finite v) (Finite (of_nat p)) = Inr (fixed_point v p)
         \<and> formatValue (JNum (Finite v)) (Some (Finite (of_nat p))) = Inr (fixed_point_stripped v p)
         \<and> formatValue_js h (JNum (Finite v)) (Some (Finite (of_nat p))) = Inr (fixed_point_stripped v p)"
proof -
  have t: "toFixed (Finite v) (Finite (of_nat p)) = Inr (fixed_point v p)"
    using assms by (rule toFixed_fixed_point)
  have r: "replace_trailing_zeros (fixed_point v p) = fixed_point_stripped v p"
    using assms(2) by (rule replace_fixed_point)
  have nz: "(of_nat p :: rat) \<noteq> 0" using assms(2) by simp
  show ?thesis
    using t r nz by (simp add: formatValue_def formatValue_js_def thenE_def)
qed

lemma lit_nine_tenths: "lit (9 / 10) = Finite (8106479329266893 / 9007199254740992)"
  by code_simp

lemma stripped_nine_tenths: "fixed_point_stripped (8106479329266893 / 9007199254740992) 4 = ''0.9''"
  by code_simp

lemma stripped_one: "fixed_point_stripped 1 4 = ''1''"
  by code_simp

theorem formatValue_fixed_point_witness:
  "formatValue (JNum (lit (9 / 10))) (Some (Finite 4)) = Inr ''0.9''
   \<and> formatValue_js sample_host (JNum (lit (9 / 10))) (Some (Finite 4)) = Inr ''0.9''
   \<and> formatValue (JNum (Finite 1)) (Some (Finite 4)) = Inr ''1''
   \<and> formatValue_js sample_host (JNum (Finite 1)) (Some (Finite 4)) = Inr ''1''"
proof -
  have a: "\<bar>8106479329266893 / 9007199254740992 :: rat\<bar> < 10 ^ 21" by simp
  have b: "\<bar>1 :: rat\<bar> < 10 ^ 21" by simp
  have p: "(0::nat) < 4" "(4::nat) \<le> 100" by simp_all
  show ?thesis
    using formatValue_fixed_point [OF a p, of sample_host] formatValue_fixed_point [OF b p, of sample_host]
    by (simp add: lit_nine_tenths stripped_nine_tenths stripped_one)
qed

text \<open>
  Outside that range the claim fails: a precision above 100 is a RangeError, and from
  \<open>10^21\<close> on \<^verbatim>\<open>toFixed\<close> gives the exponent notation of the number.
\<close>

theorem formatValue_range_counterexample:
  "formatValue (JNum (Finite 1)) (Some (Finite 101)) = Inl RangeError
   \<and> formatValue_js sample_host (JNum (Finite 1)) (Some (Finite 101)) = Inl RangeError
   \<and> formatValue (JNum (Finite (10 ^ 21))) (Some (Finite 4)) = Inr ''1e+21''
   \<and> formatValue_js sample_host (JNum (Finite (10 ^ 21))) (Some (Finite 4)) = Inr ''1e+21''"
  by code_simp

subsection \<open>Formatting a percentage\<close>

text \<open>
  C8, as the code has it. For every finite number \<open>v\<close> whose hundredfold \<open>y\<close>, rounded to
  a double, is of magnitude below \<open>10^21\<close>, \<^verbatim>\<open>formatPercentage\<close> gives the fixed-point
  rendering of \<open>y\<close> to exactly 2 digits and a percent sign, in both renderers. For null the
  React component gives the text N/A; the standalone renderer gives that text inside an
  emphasis element, for null and for undefined.
\<close>

theorem formatPercentage_two_places:
  "(mult (Finite v) (Finite 100) = Finite y \<and> \<bar>y\<bar> < 10 ^ 21 \<longrightarrow>
      formatPercentage (Some (Finite v)) = Inr (fixed_point y 2 @ ''%'')
      \<and> formatPercentage_js h (JNum (Finite v)) = Inr (fixed_point y 2 @ ''%''))
   \<and> formatPercentage None = Inr ''N/A''
   \<and> formatPercentage_js h JNull = Inr ''<em>N/A</em>''
   \<and> formatPercentage_js h JUndefined = Inr ''<em>N/A</em>''"
proof -
  have "toFixed (Finite y) (Finite 2) = Inr (fixed_point y 2)" if "\<bar>y\<bar> < 10 ^ 21"
    using toFixed_fixed_point [OF that, of 2] by simp
  then show ?thesis
    by (simp add: formatPercentage_def formatPercentage_js_def thenE_def)
qed

lemma lit_452: "lit (452 / 1000) = Finite (8142508126285857 / 18014398509481984)"
  by code_simp

lemma hundredfold_452:
  "mult (Finite (8142508126285857 / 18014398509481984)) (Finite 100)
     = Finite (3180667236830413 / 70368744177664)"
  by code_simp

lemma fixed_point_452: "fixed_point (3180667236830413 / 70368744177664) 2 = ''45.20''"
  by code_simp

theorem formatPercentage_two_places_witness:
  "formatPercentage (Some (lit (452 / 1000))) = Inr ''45.20%''
   \<and> formatPercentage_js sample_host (JNum (lit (452 / 1000))) = Inr ''45.20%''"
proof -
  have "\<bar>3180667236830413 / 70368744177664 :: rat\<bar> < 10 ^ 21" by simp
  with hundredfold_452 formatPercentage_two_places
      [of "8142508126285857 / 18014398509481984" "3180667236830413 / 70368744177664" sample_host]
  have "formatPercentage (Some (Finite (8142508126285857 / 18014398509481984)))
          = Inr (fixed_point (3180667236830413 / 70368744177664) 2 @ ''%'')
        \<and> formatPercentage_js sample_host (JNum (Finite (8142508126285857 / 18014398509481984)))
          = Inr (fixed_point (3180667236830413 / 70368744177664) 2 @ ''%'')"
    by blast
  then show ?thesis
    unfolding lit_452 fixed_point_452 by simp
qed

text \<open>
  The sentinel of the standalone renderer is not the bare text, and a hundredfold from
  \<open>10^21\<close> on is not rendered to two places.
\<close>

theorem formatPercentage_sentinel_counterexample:
  "formatPercentage_js sample_host JNull = Inr ''<em>N/A</em>''
   \<and> ''<em>N/A</em>'' \<noteq> ''N/A''
   \<and> formatPercentage (Some (Finite (10 ^ 20))) = Inr ''1e+22%''"
  by code_simp

subsection \<open>The classification-metric series\<close>

lemma kept_metrics:
  "filter (\<lambda>item. positive (snd item))
     [(''Accuracy'', or_zero (accuracy cm)), (''Precision'', or_zero (precision cm)),
      (''Recall'', or_zero (recall cm)), (''F1'', or_zero (f1 cm)), (''AUC'', or_zero (auc cm))]
   = [(n, v). (n, Some v) \<leftarrow> metric_values cm, positive v]"
proof -
  have keep: "(if positive (or_zero m) then [(n, or_zero m)] else [])
                = (case m of None \<Rightarrow> [] | Some v \<Rightarrow> if positive v then [(n, v)] else [])"
    for n :: string and m
    by (cases m) (auto simp: or_zero_def)
  have fc: "filter P (x # xs) = (if P x then [x] else []) @ filter P xs"
    for P :: "string \<times> number \<Rightarrow> bool" and x xs
    by simp
  show ?thesis
    unfolding metric_values_def
    by (simp only: fc snd_conv keep filter.simps list.map concat.simps append_Nil2 prod.case)
qed

text \<open>
  C4. For every document, the component derives a classification-metric series exactly
  when the model type is \<^verbatim>\<open>Single Predictor\<close> and the classification metrics are present.
  The series then holds, in the fixed order Accuracy, Precision, Recall, F1, AUC, the
  metrics whose value is present and greater than zero: a metric that is null or exactly
  zero is dropped, and so is one below zero. When all five metrics are present and
  greater than zero the series has exactly the 5 points, in the fixed order.
\<close>

theorem metricsChartData_series:
  "metricsChartData d =
     (if model_type (model_identification d) = ''Single Predictor''
      then map_option (\<lambda>cm. [(n, v). (n, Some v) \<leftarrow> metric_values cm, positive v])
             (classification_metrics (training_metrics d))
      else None)
   \<and> map fst (metric_values cm) = [''Accuracy'', ''Precision'', ''Recall'', ''F1'', ''AUC'']
   \<and> (model_type (model_identification d) = ''Single Predictor''
        \<and> classification_metrics (training_metrics d) = Some cm \<longrightarrow>
        (\<exists>series. metricsChartData d = Some series
           \<and> (\<forall>(n, m) \<in> set (metric_values cm).
                 (n \<in> fst ` set series) = (\<exists>v. m = Some v \<and> positive v)
                 \<and> (m = None \<or> m = Some (Finite 0) \<longrightarrow> n \<notin> fst ` set series))
           \<and> ((\<forall>m \<in> snd ` set (metric_values cm). \<exists>v. m = Some v \<and> positive v)
                \<longrightarrow> series = map (\<lambda>(n, m). (n, the m)) (metric_values cm) \<and> length series = 5)))"
proof (intro conjI impI)
  show "metricsChartData d =
     (if model_type (model_identification d) = ''Single Predictor''
      then map_option (\<lambda>cm. [(n, v). (n, Some v) \<leftarrow> metric_values cm, positive v])
             (classification_metrics (training_metrics d))
      else None)"
    unfolding metricsChartData_def
    by (simp only: kept_metrics split: option.split) simp
next
  show "map fst (metric_values cm) = [''Accuracy'', ''Precision'', ''Recall'', ''F1'', ''AUC'']"
    by (simp add: metric_values_def)
next
  assume a: "model_type (model_identification d) = ''Single Predictor''
        \<and> classification_metrics (training_metrics d) = Some cm"
  define series where "series = [(n, v). (n, Some v) \<leftarrow> metric_values cm, positive v]"
  have s: "metricsChartData d = Some series"
    using a unfolding metricsChartData_def series_def
    by (simp only: kept_metrics) simp
  have mem: "(n, v) \<in> set series \<longleftrightarrow> (n, Some v) \<in> set (metric_values cm) \<and> positive v" for n v
    unfolding series_def metric_values_def by (auto split: option.splits if_splits)
  have names: "distinct (map fst (metric_values cm))"
    by (simp add: metric_values_def)
  have shown: "n \<in> fst ` set series \<longleftrightarrow> (\<exists>v. m = Some v \<and> positive v)"
    if "(n, m) \<in> set (metric_values cm)" for n m
  proof
    assume "n \<in> fst ` set series"
    then obtain v where "(n, v) \<in> set series" by auto
    then have v: "(n, Some v) \<in> set (metric_values cm)" "positive v" by (simp_all add: mem)
    from names that v(1) have "m = Some v" by (meson eq_key_imp_eq_value)
    with v(2) show "\<exists>v. m = Some v \<and> positive v" by blast
  next
    assume "\<exists>v. m = Some v \<and> positive v"
    then obtain v where "m = Some v" "positive v" by blast
    with that have "(n, v) \<in> set series" by (simp add: mem)
    then show "n \<in> fst ` set series" by force
  qed
  have dropped: "n \<notin> fst ` set series"
    if "(n, m) \<in> set (metric_values cm)" "m = None \<or> m = Some (Finite 0)" for n m
    using shown [OF that(1)] that(2) by auto
  have all: "series = map (\<lambda>(n, m). (n, the m)) (metric_values cm) \<and> length series = 5"
    if p: "\<forall>m \<in> snd ` set (metric_values cm). \<exists>v. m = Some v \<and> positive v"
  proof -
    obtain a where a: "accuracy cm = Some a" "positive a" using p by (auto simp: metric_values_def)
    obtain b where b: "precision cm = Some b" "positive b" using p by (auto simp: metric_values_def)
    obtain c where c: "recall cm = Some c" "positive c" using p by (auto simp: metric_values_def)
    obtain e where e: "f1 cm = Some e" "positive e" using p by (auto simp: metric_values_def)
    obtain f where f: "auc cm = Some f" "positive f" using p by (auto simp: metric_values_def)
    show ?thesis
      unfolding series_def metric_values_def by (simp add: a b c e f)
  qed
  show "\<exists>series. metricsChartData d = Some series
           \<and> (\<forall>(n, m) \<in> set (metric_values cm).
                 (n \<in> fst ` set series) = (\<exists>v. m = Some v \<and> positive v)
                 \<and> (m = None \<or> m = Some (Finite 0) \<longrightarrow> n \<notin> fst ` set series))
           \<and> ((\<forall>m \<in> snd ` set (metric_values cm). \<exists>v. m = Some v \<and> positive v)
                \<longrightarrow> series = map (\<lambda>(n, m). (n, the m)) (metric_values cm) \<and> length series = 5)"
    using s shown dropped all by (intro exI [of _ series]) blast
qed

text \<open>
  The example card, whose five metrics are positive, and the card with no precision and a
  recall of zero.
\<close>

lemma sample_metrics_positive:
  "list_all (\<lambda>m. \<exists>v. m = Some v \<and> positive v) (map snd (metric_values sample_metrics))"
  unfolding metric_values_def sample_metrics_def by (simp, code_simp)

theorem metricsChartData_series_witness:
  "model_type (model_identification sample_card) = ''Single Predictor''
   \<and> classification_metrics (training_metrics sample_card) = Some sample_metrics
   \<and> list_all (\<lambda>m. \<exists>v. m = Some v \<and> positive v) (map snd (metric_values sample_metrics))
   \<and> metricsChartData sample_card
       = Some [(''Accuracy'', lit (925 / 1000)), (''Precision'', lit (912 / 1000)),
               (''Recall'', lit (887 / 1000)), (''F1'', lit (899 / 1000)), (''AUC'', lit (967 / 1000))]
   \<and> length (the (metricsChartData sample_card)) = 5
   \<and> metricsChartData partial_card
       = Some [(''Accuracy'', lit (925 / 1000)), (''F1'', lit (899 / 1000)), (''AUC'', lit (967 / 1000))]"
proof -
  have sp: "model_type (model_identification sample_card) = ''Single Predictor''"
    by (simp add: sample_card_def)
  have cm: "classification_metrics (training_metrics sample_card) = Some sample_metrics"
    by (simp add: sample_card_def)
  have pos: "\<forall>m \<in> snd ` set (metric_values sample_metrics). \<exists>v. m = Some v \<and> positive v"
    using sample_metrics_positive by (simp add: list_all_iff)
  from metricsChartData_series [of sample_card sample_metrics] sp cm pos
  have five: "metricsChartData sample_card
                = Some (map (\<lambda>(n, m). (n, the m)) (metric_values sample_metrics))
              \<and> length (the (metricsChartData sample_card)) = 5"
    by fastforce
  have points: "map (\<lambda>(n, m). (n, the m)) (metric_values sample_metrics)
      = [(''Accuracy'', lit (925 / 1000)), (''Precision'', lit (912 / 1000)),
         (''Recall'', lit (887 / 1000)), (''F1'', lit (899 / 1000)), (''AUC'', lit (967 / 1000))]"
    by (simp add: metric_values_def sample_metrics_def)
  have "metricsChartData partial_card =
     (if model_type (model_identification partial_card) = ''Single Predictor''
      then map_option (\<lambda>cm. [(n, v). (n, Some v) \<leftarrow> metric_values cm, positive v])
             (classification_metrics (training_metrics partial_card))
      else None)"
    using metricsChartData_series [of partial_card sample_metrics] by blast
  also have "\<dots> = Some [(''Accuracy'', lit (925 / 1000)), (''F1'', lit (899 / 1000)), (''AUC'', lit (967 / 1000))]"
    by code_simp
  finally have three: "metricsChartData partial_card
       = Some [(''Accuracy'', lit (925 / 1000)), (''F1'', lit (899 / 1000)), (''AUC'', lit (967 / 1000))]" .
  from five have five':
    "metricsChartData sample_card
       = Some [(''Accuracy'', lit (925 / 1000)), (''Precision'', lit (912 / 1000)),
               (''Recall'', lit (887 / 1000)), (''F1'', lit (899 / 1000)), (''AUC'', lit (967 / 1000))]
     \<and> length (the (metricsChartData sample_card)) = 5"
    unfolding points .
  from sp cm sample_metrics_positive five' three show ?thesis
    by blast
qed

text \<open>
  A card whose accuracy is the number \<open>-0.5\<close>: all five of its metrics are present and
  none is zero, and its series has four points.
\<close>

theorem metricsChartData_negative_counterexample:
  "list_all (\<lambda>m. m \<noteq> None \<and> m \<noteq> Some (Finite 0))
     (map snd (metric_values (sample_metrics\<lparr>accuracy := Some (Finite (- 1 / 2))\<rparr>)))
   \<and> classification_metrics (training_metrics negative_card)
       = Some (sample_metrics\<lparr>accuracy := Some (Finite (- 1 / 2))\<rparr>)
   \<and> metricsChartData negative_card
       = Some [(''Precision'', lit (912 / 1000)), (''Recall'', lit (887 / 1000)),
               (''F1'', lit (899 / 1000)), (''AUC'', lit (967 / 1000))]
   \<and> length (the (metricsChartData negative_card)) = 4"
  by code_simp

subsection \<open>The column-statistics series\<close>

text \<open>
  C5. For every document with a column-statistics map whose mutual-information values are
  numbers of a JSON document (null, or a finite double), the series is the first 10 points
  of the map's entries sorted by mutual information, largest first, by the stable sort of
  the library (\<open>sort_key\<close>): each entry is mapped to its name and its mutual information,
  null counting as 0; points of equal mutual information keep the order of the entries; the
  series has \<open>min 10 n\<close> points for \<open>n\<close> entries, and its values never increase.
\<close>

theorem columnStatisticsData_top10:
  assumes "column_statistics d = Some entries"
    and "\<forall>(k, st) \<in> set entries. json_number (mutual_information_bits st)"
  shows "columnStatisticsData d
           = Some (take 10 (sort_key (\<lambda>p. - bits (mutualInfo p)) (map column_point entries)))
         \<and> (\<forall>v. filter (\<lambda>p. bits (mutualInfo p) = v)
                   (sort_key (\<lambda>p. - bits (mutualInfo p)) (map column_point entries))
                = filter (\<lambda>p. bits (mutualInfo p) = v) (map column_point entries))
         \<and> (\<forall>series. columnStatisticsData d = Some series \<longrightarrow>
                length series = min 10 (length entries)
                \<and> sorted_wrt (\<lambda>p q. bits (mutualInfo q) \<le> bits (mutualInfo p)) series)"
proof -
  let ?key = "\<lambda>p. - bits (mutualInfo p)"
  let ?points = "map column_point entries"
  have fd: "\<forall>p \<in> set ?points. finite_double (mutualInfo p)"
    using assms(2) by (auto simp: column_point_def or_zero_finite_double)
  have eq: "sort_by (\<lambda>a b. minus (mutualInfo b) (mutualInfo a)) ?points = sort_key ?key ?points"
    using fd by (rule sort_by_sort_key)
  have 1: "columnStatisticsData d = Some (take 10 (sort_key ?key ?points))"
    using assms(1) eq by (simp add: columnStatisticsData_def)
  have 2: "filter (\<lambda>p. bits (mutualInfo p) = v) (sort_key ?key ?points)
             = filter (\<lambda>p. bits (mutualInfo p) = v) ?points" for v
    using sort_key_stable [of ?key "- v" ?points] by simp
  have "sorted (map ?key (sort_key ?key ?points))" by (rule sorted_sort_key)
  then have "sorted_wrt (\<lambda>p q. ?key p \<le> ?key q) (sort_key ?key ?points)"
    by (simp only: sorted_map)
  then have "sorted_wrt (\<lambda>p q. ?key p \<le> ?key q) (take 10 (sort_key ?key ?points))"
    by (rule sorted_wrt_take)
  then have 3: "sorted_wrt (\<lambda>p q. bits (mutualInfo q) \<le> bits (mutualInfo p))
                  (take 10 (sort_key ?key ?points))"
    by simp
  have 4: "length (take 10 (sort_key ?key ?points)) = min 10 (length entries)"
    by simp
  show ?thesis using 1 2 3 4 by simp
qed

lemma twelve_json_numbers:
  "\<forall>(k, st) \<in> set twelve_columns. json_number (mutual_information_bits st)"
  by code_simp

lemma twelve_sorted:
  "map (\<lambda>p. (point_name p, mutualInfo p))
     (take 10 (sort_key (\<lambda>p. - bits (mutualInfo p)) (map column_point twelve_columns)))
   = [(''c09'', Finite 3), (''c05'', Finite 2), (''c02'', Finite (5 / 4)), (''c08'', Finite (5 / 4)),
      (''c11'', Finite 1), (''c03'', Finite (3 / 4)), (''c01'', Finite (1 / 2)),
      (''c06'', Finite (1 / 2)), (''c10'', Finite (1 / 4)), (''c07'', Finite (1 / 8))]"
  by code_simp

theorem columnStatisticsData_top10_witness:
  "length twelve_columns = 12
   \<and> map (\<lambda>p. (point_name p, mutualInfo p)) (the (columnStatisticsData sample_card))
     = [(''c09'', Finite 3), (''c05'', Finite 2), (''c02'', Finite (5 / 4)), (''c08'', Finite (5 / 4)),
        (''c11'', Finite 1), (''c03'', Finite (3 / 4)), (''c01'', Finite (1 / 2)),
        (''c06'', Finite (1 / 2)), (''c10'', Finite (1 / 4)), (''c07'', Finite (1 / 8))]"
proof -
  have cs: "column_statistics sample_card = Some twelve_columns"
    by (simp add: sample_card_def)
  have "columnStatisticsData sample_card
          = Some (take 10 (sort_key (\<lambda>p. - bits (mutualInfo p)) (map column_point twelve_columns)))"
    using columnStatisticsData_top10 [OF cs twelve_json_numbers] by blast
  then show ?thesis
    using twelve_sorted by (simp add: twelve_columns_def)
qed

subsection \<open>The feature-type histogram\<close>

lemma round_half_even_of_int: "round_half_even (of_int k) = k"
  by (simp add: round_half_even_def Let_def)

lemma ndigits_le:
  "0 \<le> n \<Longrightarrow> n < 2 ^ k \<Longrightarrow> ndigits 2 n \<le> k"
proof (cases "0 < n")
  case True
  assume "n < 2 ^ k"
  from ndigits_bounds [OF True, of 2] have "2 ^ (ndigits 2 n - 1) \<le> n" by simp
  with \<open>n < 2 ^ k\<close> have "(2::int) ^ (ndigits 2 n - 1) < 2 ^ k" by linarith
  then have "ndigits 2 n - 1 < k" by (simp add: power_strict_increasing_iff)
  then show ?thesis by simp
next
  case False
  assume "0 \<le> n"
  with False have "n = 0" by simp
  then show ?thesis by (simp add: ndigits_nonpos)
qed

lemma round_double_of_nat:
  assumes "m < 2 ^ 53"
  shows "round_double (of_nat m) = Finite (of_nat m)"
proof (cases "m = 0")
  case True
  then show ?thesis by (simp add: round_double_def)
next
  case False
  define M where "M = int m"
  have M: "0 < M" "M < 2 ^ 53" using False assms by (simp_all add: M_def)
  have x: "(of_nat m :: rat) = of_int M" by (simp add: M_def)
  define E where "E = floor_log 2 (of_int M)"
  have nd: "ndigits 2 M \<le> 53" using M by (intro ndigits_le) simp_all
  have nd1: "0 < ndigits 2 M" using M by (simp add: ndigits_pos)
  have E: "E = int (ndigits 2 M) - 1"
    using M by (simp add: E_def floor_log_def)
  define j where "j = nat (52 - E)"
  have e: "max (E - 52) (- 1074) = - int j" using E nd nd1 by (simp add: j_def)
  have pj: "pw 2 (- int j) = 1 / 2 ^ j" by (simp add: pw_def)
  have q: "(of_int M :: rat) / pw 2 (- int j) = of_int (M * 2 ^ j)" by (simp add: pj)
  have y: "of_int (round_half_even (of_int M / pw 2 (- int j))) * pw 2 (- int j) = (of_int M :: rat)"
    unfolding q round_half_even_of_int by (simp add: pj)
  have big: "\<not> pw 2 1024 \<le> (of_int M :: rat)"
  proof -
    have "M < 2 ^ 1024" using M(2) by (rule less_trans) simp
    then have "(of_int M :: rat) < of_int (2 ^ 1024)" by (simp only: of_int_less_iff)
    then show ?thesis by (simp add: pw_def)
  qed
  have "round_double (of_int M) = Finite (of_int M)"
    using M(1) y big e by (simp add: round_double_def Let_def E_def)
  then show ?thesis by (simp add: x)
qed

lemma first_seen_snoc:
  "first_seen (xs @ [x]) = (if x \<in> set xs then first_seen xs else first_seen xs @ [x])"
  by (simp add: first_seen_def)

lemma set_first_seen [simp]: "set (first_seen xs) = set xs"
  by (simp add: first_seen_def)

lemma distinct_first_seen [simp]: "distinct (first_seen xs)"
  by (simp add: first_seen_def)

lemma first_seen_Nil [simp]: "first_seen [] = []"
  by (simp add: first_seen_def)

lemma map_of_histogram:
  "map_of (type_histogram ts) k
     = (if k \<in> set ts then Some (Tally (Finite (of_nat (count_list ts k)))) else None)"
  by (simp add: type_histogram_def map_of_map_restrict restrict_map_def)

lemma fst_histogram [simp]: "map fst (type_histogram ts) = first_seen ts"
  by (simp add: type_histogram_def comp_def)

lemma plus_one_exact:
  assumes "Suc n < 2 ^ 53"
  shows "plus (Finite (of_nat n)) (Finite 1) = Finite (of_nat (Suc n))"
proof -
  have "(of_nat n :: rat) + 1 = of_nat (Suc n)" by simp
  then have "round_double (of_nat n + 1) = Finite (of_nat (Suc n))"
    using round_double_of_nat [OF assms] by (simp only:)
  then show ?thesis by (simp only: plus.simps)
qed

lemma count_pos_truthy: "k \<in> set ts \<Longrightarrow> truthy (JNum (Finite (of_nat (count_list ts k))))"
  by (simp add: count_list_0_iff)

lemma histogram_step:
  assumes "plain_key k" and "Suc (length ts) < 2 ^ 53"
  shows "store (type_histogram ts) k (incremented h (type_histogram ts) k) = type_histogram (ts @ [k])"
proof (cases "k \<in> set ts")
  case True
  have "count_list ts k \<le> length ts" by (rule count_le_length)
  then have lt: "Suc (count_list ts k) < 2 ^ 53" using assms(2) by linarith
  have inc: "incremented h (type_histogram ts) k = Tally (Finite (of_nat (Suc (count_list ts k))))"
    using True count_pos_truthy [OF True] plus_one_exact [OF lt]
    by (simp add: incremented_def map_of_histogram del: of_nat_Suc)
  have np: "k \<noteq> ''__proto__''"
    using assms(1) by (auto simp: plain_key_def object_prototype_names_def)
  have own: "k \<in> fst ` set (type_histogram ts)"
    using True by (simp add: type_histogram_def image_image)
  show ?thesis
    unfolding inc store_def using np own True
    by (auto simp: type_histogram_def first_seen_snoc simp del: of_nat_Suc)
next
  case False
  have z: "Suc 0 < 2 ^ 53" by simp
  have np: "k \<noteq> ''__proto__''"
    using assms(1) by (auto simp: plain_key_def object_prototype_names_def)
  have one: "plus (Finite 0) (Finite 1) = Finite 1"
    using plus_one_exact [OF z] by simp
  have inc: "incremented h (type_histogram ts) k = Tally (Finite 1)"
    using False assms(1) np
    by (simp add: incremented_def map_of_histogram plain_key_def one del: plus.simps)
  have own: "k \<notin> fst ` set (type_histogram ts)"
    using False by (simp add: type_histogram_def image_image)
  show ?thesis
    unfolding inc store_def using np own False
    by (auto simp: type_histogram_def first_seen_snoc)
qed

lemma histogram_fold:
  assumes "\<forall>f \<in> set fs. plain_key (feature_type f)" and "length fs < 2 ^ 53"
  shows "foldl (\<lambda>typeCounts feat.
                  store typeCounts (feature_type feat) (incremented h typeCounts (feature_type feat)))
           [] fs
         = type_histogram (map feature_type fs)"
  using assms
proof (induction fs rule: rev_induct)
  case Nil
  then show ?case by (simp add: type_histogram_def)
next
  case (snoc f fs)
  then have IH: "foldl (\<lambda>typeCounts feat.
                  store typeCounts (feature_type feat) (incremented h typeCounts (feature_type feat)))
           [] fs = type_histogram (map feature_type fs)"
    by simp
  have "Suc (length (map feature_type fs)) < 2 ^ 53" using snoc.prems(2) by simp
  moreover have "plain_key (feature_type f)" using snoc.prems(1) by simp
  ultimately show ?case
    using histogram_step [of "feature_type f" "map feature_type fs" h] IH by simp
qed

lemma Object_entries_plain:
  "\<forall>p \<in> set props. array_index (fst p) = None \<Longrightarrow> Object_entries props = props"
  by (simp add: Object_entries_def)

text \<open>
  C9, as the code has it. For every feature inventory whose type strings are plain keys
  (no array index such as \<^verbatim>\<open>0\<close> or \<^verbatim>\<open>12\<close>, no name of a property of \<^verbatim>\<open>Object.prototype\<close>
  such as \<^verbatim>\<open>constructor\<close>), the histogram assigns to each distinct type string the
  count of its occurrences in the list, and its points appear in the order in which each
  distinct type string first occurs. (The length bound holds of every JavaScript array;
  below it the counting in doubles is exact.)
\<close>

theorem featureTypeDistribution_histogram:
  assumes "\<forall>f \<in> set (feature_inventory d). plain_key (feature_type f)"
    and "length (feature_inventory d) < 2 ^ 53"
  shows "featureTypeDistribution h d = type_histogram (map feature_type (feature_inventory d))"
proof -
  have "\<forall>p \<in> set (type_histogram (map feature_type (feature_inventory d))). array_index (fst p) = None"
    using assms(1) by (auto simp: type_histogram_def plain_key_def)
  then show ?thesis
    using histogram_fold [OF assms] by (simp add: featureTypeDistribution_def Object_entries_plain)
qed

lemma sample_types_plain:
  "\<forall>f \<in> set (feature_inventory sample_card). plain_key (feature_type f)"
  by code_simp

lemma sample_histogram:
  "type_histogram (map feature_type (feature_inventory sample_card))
     = [(''scalar'', Tally (Finite 2)), (''set'', Tally (Finite 1))]"
  by code_simp

theorem featureTypeDistribution_histogram_witness:
  "map feature_type (feature_inventory sample_card) = [''scalar'', ''set'', ''scalar'']
   \<and> featureTypeDistribution sample_host sample_card
       = [(''scalar'', Tally (Finite 2)), (''set'', Tally (Finite 1))]"
proof -
  have "length (feature_inventory sample_card) < 2 ^ 53"
    by (simp add: sample_card_def)
  from featureTypeDistribution_histogram [OF sample_types_plain this, of sample_host]
  show ?thesis
    by (simp add: sample_histogram) (simp add: sample_card_def)
qed

text \<open>
  A type string that is an array index leaves the order of first occurrence: the object
  that holds the counts enumerates such keys first.
\<close>

theorem featureTypeDistribution_index_counterexample:
  "map feature_type (feature_inventory indexed_card) = [''b'', ''0'']
   \<and> featureTypeDistribution sample_host indexed_card
       = [(''0'', Tally (Finite 1)), (''b'', Tally (Finite 1))]
   \<and> map fst (featureTypeDistribution sample_host indexed_card) \<noteq> first_seen [''b'', ''0'']"
  by code_simp

subsection \<open>The page of the standalone renderer\<close>

lemma page_template_chunks: "\<exists>c0 c1 c2 c3 c4. page_template = [c0, c1, c2, c3, c4]"
  unfolding page_template_def by blast

lemma thenE_Inr_iff: "thenE m f = Inr y \<longleftrightarrow> (\<exists>x. m = Inr x \<and> f x = Inr y)"
  by (cases m) (simp_all add: thenE_def)

lemma thenE_Inr [simp]: "thenE (Inr x) f = f x"
  by (simp add: thenE_def)

lemma thenE_Inl [simp]: "thenE (Inl e) f = Inl e"
  by (simp add: thenE_def)

lemma renderHTML_shape:
  "(\<exists>pre post. \<forall>t. renderHTML h t d = Inr (pre @ dateStr t @ post))
   \<or> (\<exists>e. \<forall>t. renderHTML h t d = Inl e)"
proof -
  obtain c0 c1 c2 c3 c4 where pt: "page_template = [c0, c1, c2, c3, c4]"
    using page_template_chunks by blast
  define sections where
    "sections = sequenceE [renderModelIdentification d, renderTrainingDataset h d,
                           renderTrainingMetrics d, renderModelQuality h d]"
  have unfold: "renderHTML h t d =
      thenE (get d ''model_identification'') (\<lambda>v.
      thenE (get (or_else v (JObj [])) ''name'') (\<lambda>v.
        thenE sections (\<lambda>rendered.
          thenE (ToString (or_else v (JStr ''Model Card''))) (\<lambda>a.
          thenE (call_toUpperCase (or_else v (JStr ''Model Card''))) (\<lambda>b.
            Inr ((c0 @ a @ c1 @ b @ c2) @ dateStr t @ (c3 @ concat rendered @ c4)))))))" for t
    by (simp add: renderHTML_def template_def Let_def pt sections_def thenE_def
          split: sum.splits)
  show ?thesis
  proof (cases "get d ''model_identification''")
    case (Inl e)
    then show ?thesis by (simp add: unfold)
  next
    case v1: (Inr v1)
    show ?thesis
    proof (cases "get (or_else v1 (JObj [])) ''name''")
      case (Inl e)
      then show ?thesis by (simp add: unfold v1)
    next
      case v2: (Inr v2)
      show ?thesis
      proof (cases sections)
        case (Inl e)
        then show ?thesis by (simp add: unfold v1 v2)
      next
        case r: (Inr rendered)
        show ?thesis
        proof (cases "ToString (or_else v2 (JStr ''Model Card''))")
          case (Inl e)
          then show ?thesis by (simp add: unfold v1 v2 r)
        next
          case a: (Inr a)
          show ?thesis
          proof (cases "call_toUpperCase (or_else v2 (JStr ''Model Card''))")
            case (Inl e)
            then show ?thesis by (simp add: unfold v1 v2 r a)
          next
            case (Inr b)
            then have "\<forall>t. renderHTML h t d
                         = Inr ((c0 @ a @ c1 @ b @ c2) @ dateStr t @ (c3 @ concat rendered @ c4))"
              by (simp add: unfold v1 v2 r a)
            then show ?thesis by blast
          qed
        qed
      qed
    qed
  qed
qed

subsection \<open>Calls that return\<close>

lemma returns_Inr [simp]: "returns (Inr x)"
  by (simp add: returns_def)

lemma returns_iff: "returns m \<longleftrightarrow> (\<exists>x. m = Inr x)"
  by (cases m) (simp_all add: returns_def)

lemma returns_thenE: "returns m \<Longrightarrow> (\<And>x. m = Inr x \<Longrightarrow> returns (f x)) \<Longrightarrow> returns (thenE m f)"
  by (auto simp: returns_iff)

lemma returns_sequenceE: "list_all returns ms \<Longrightarrow> returns (sequenceE ms)"
  by (induction ms) (auto simp: returns_iff)

lemma returns_template: "list_all returns holes \<Longrightarrow> returns (template chunks holes)"
  using returns_sequenceE [of holes] by (auto simp: template_def returns_iff)

lemma lookup_Nil [simp]: "lookup [] k = JUndefined"
  by (simp add: lookup_def)

lemma text_field_or_else: "text_field v \<Longrightarrow> \<exists>s. or_else v (JStr d) = JStr s"
  by (cases v rule: text_field.cases) (simp_all add: or_else_def)

lemma number_field_or_else: "number_field v \<Longrightarrow> \<exists>x. or_else v (JNum (Finite 0)) = JNum x"
  by (cases v rule: number_field.cases) (simp_all add: or_else_def)

lemma section_object:
  assumes "absent_or (object_with ok) v" and "ok []"
  shows "\<exists>ps. or_else v (JObj []) = JObj ps \<and> ok ps"
  using assms by (cases v) (auto simp: or_else_def)

lemma fields_lookup: "fields ok ks ps \<Longrightarrow> k \<in> set ks \<Longrightarrow> ok (lookup ps k)"
  by (simp add: fields_def list_all_iff)

lemma returns_text_or: "text_field (lookup ps k) \<Longrightarrow> returns (text_or (JObj ps) k (JStr d))"
  using text_field_or_else [of "lookup ps k" d] by (auto simp: text_or_def)

lemma returns_upper_or: "text_field (lookup ps k) \<Longrightarrow> returns (upper_or (JObj ps) k (JStr d))"
  using text_field_or_else [of "lookup ps k" d] by (auto simp: upper_or_def)

lemma returns_number_text:
  "number_field (lookup ps k) \<Longrightarrow> returns (text_or (JObj ps) k (JNum (Finite 0)))"
  using number_field_or_else [of "lookup ps k"] by (auto simp: text_or_def)

lemma returns_toFixed3: "returns (toFixed x (Finite 3))"
  by (cases x) (simp_all add: toFixed_def Let_def)

lemma returns_fixed3_or: "number_field (lookup ps k) \<Longrightarrow> returns (fixed3_or (JObj ps) k)"
  using returns_toFixed3 by (cases "lookup ps k") (auto simp: fixed3_or_def)

lemma returns_status_color: "text_field v \<Longrightarrow> returns (getStatusColor_js v)"
  using text_field_or_else [of v "[]"] by (auto simp: getStatusColor_js_def)

lemma returns_severity_color: "text_field v \<Longrightarrow> returns (getSeverityColor_js v)"
  using text_field_or_else [of v "[]"] by (auto simp: getSeverityColor_js_def)

lemma returns_quality_color: "text_field v \<Longrightarrow> returns (getQualityColor_js v)"
  by (cases v rule: text_field.cases) (simp_all add: getQualityColor_js_def)

lemma returns_renderModelIdentification:
  assumes "model_identification_ok (lookup ps ''model_identification'')"
  shows "returns (renderModelIdentification (JObj ps))"
proof -
  let ?ks = "[''name'', ''session_id'', ''job_id'', ''status'', ''compute_cluster'', ''training_date'',
              ''model_type'', ''target_column'', ''target_column_type'', ''framework'']"
  have "fields text_field ?ks []" by (simp add: fields_def)
  with assms obtain mi where mi: "or_else (lookup ps ''model_identification'') (JObj []) = JObj mi"
    and ok: "fields text_field ?ks mi"
    unfolding model_identification_ok_def using section_object by blast
  have f: "text_field (lookup mi k)" if "k \<in> set ?ks" for k
    using fields_lookup [OF ok that] .
  have "returns (if truthy (lookup mi ''session_id'')
                 then call_substring (lookup mi ''session_id'') 0 20 else Inr ''N/A'')"
    using f [of "''session_id''"] by (cases "lookup mi ''session_id''") simp_all
  then obtain sid where sid:
    "(if truthy (lookup mi ''session_id'')
      then call_substring (lookup mi ''session_id'') 0 20 else Inr ''N/A'') = Inr sid"
    by (auto simp: returns_iff)
  obtain c where c: "getStatusColor_js (lookup mi ''status'') = Inr c"
    using returns_status_color [OF f [of "''status''"]] by (auto simp: returns_iff)
  have "returns (template model_identification_template
          [Inr sid,
           upper_or (JObj mi) ''compute_cluster'' (JStr ''N/A''),
           text_or (JObj mi) ''training_date'' (JStr ''N/A''),
           Inr c,
           upper_or (JObj mi) ''status'' (JStr ''N/A''),
           text_or (JObj mi) ''job_id'' (JStr ''N/A''),
           text_or (JObj mi) ''model_type'' (JStr ''N/A''),
           text_or (JObj mi) ''target_column'' (JStr ''N/A''),
           text_or (JObj mi) ''target_column_type'' (JStr ''N/A''),
           text_or (JObj mi) ''framework'' (JStr ''N/A'')])"
    by (intro returns_template) (simp add: returns_text_or returns_upper_or f)
  then show ?thesis
    unfolding renderModelIdentification_def
    by (simp add: mi Let_def c sid)
qed

lemma returns_renderTrainingDataset:
  assumes "training_dataset_ok (lookup ps ''training_dataset'')"
    and "model_identification_ok (lookup ps ''model_identification'')"
  shows "returns (renderTrainingDataset h (JObj ps))"
proof -
  let ?ks = "[''name'', ''session_id'', ''job_id'', ''status'', ''compute_cluster'', ''training_date'',
              ''model_type'', ''target_column'', ''target_column_type'', ''framework'']"
  have "fields text_field ?ks []" by (simp add: fields_def)
  with assms(2) obtain mi where mi: "or_else (lookup ps ''model_identification'') (JObj []) = JObj mi"
    and ok: "fields text_field ?ks mi"
    unfolding model_identification_ok_def using section_object by blast
  let ?td = "\<lambda>ps. fields number_field [''train_rows'', ''total_features''] ps
                  \<and> fields text_field [''target_column''] ps"
  have "?td []" by (simp add: fields_def)
  with assms(1) obtain td where td: "or_else (lookup ps ''training_dataset'') (JObj []) = JObj td"
    and okd: "?td td"
    unfolding training_dataset_ok_def using section_object [of ?td] by blast
  have n: "number_field (lookup td ''train_rows'')" "number_field (lookup td ''total_features'')"
    "text_field (lookup td ''target_column'')"
    using okd by (simp_all add: fields_def)
  have rows: "returns (toLocaleString h (or_else (lookup td ''train_rows'') (JNum (Finite 0))))"
    using number_field_or_else [OF n(1)] by auto
  have t: "text_field (lookup mi ''target_column_type'')"
    using fields_lookup [OF ok] by simp
  show ?thesis
    unfolding renderTrainingDataset_def
    by (simp add: mi td Let_def)
       (intro returns_template, simp add: rows returns_number_text returns_text_or returns_upper_or n t)
qed

lemma returns_renderTrainingMetrics:
  assumes "training_metrics_ok (lookup ps ''training_metrics'')"
    and "model_identification_ok (lookup ps ''model_identification'')"
  shows "returns (renderTrainingMetrics (JObj ps))"
proof -
  let ?ks = "[''name'', ''session_id'', ''job_id'', ''status'', ''compute_cluster'', ''training_date'',
              ''model_type'', ''target_column'', ''target_column_type'', ''framework'']"
  have "fields text_field ?ks []" by (simp add: fields_def)
  with assms(2) obtain mi where mi: "or_else (lookup ps ''model_identification'') (JObj []) = JObj mi"
    unfolding model_identification_ok_def using section_object by blast
  let ?cmf = "fields number_field [''precision'', ''recall'', ''f1'', ''auc'']"
  let ?tm = "\<lambda>ps. absent_or (object_with ?cmf) (lookup ps ''classification_metrics'')"
  have "?tm []" by simp
  with assms(1) obtain tm where tm: "or_else (lookup ps ''training_metrics'') (JObj []) = JObj tm"
    and oktm: "?tm tm"
    unfolding training_metrics_ok_def using section_object [of ?tm] by blast
  have grid: "returns (template classification_grid_template
                [fixed3_or cm ''precision'', fixed3_or cm ''recall'',
                 fixed3_or cm ''f1'', fixed3_or cm ''auc''])"
    if "lookup tm ''classification_metrics'' = cm" "truthy cm" for cm
  proof -
    from oktm that obtain cs where cs: "cm = JObj cs" and okc: "?cmf cs"
      by (cases cm) auto
    have "number_field (lookup cs k)" if "k \<in> set [''precision'', ''recall'', ''f1'', ''auc'']" for k
      using fields_lookup [OF okc that] .
    then show ?thesis
      unfolding cs by (intro returns_template) (simp add: returns_fixed3_or)
  qed
  show ?thesis
  proof (cases "or_else (lookup mi ''model_type'') (JStr []) = JStr ''Single Predictor''
                \<and> truthy (lookup tm ''classification_metrics'')")
    case True
    then obtain g where "template classification_grid_template
                [fixed3_or (lookup tm ''classification_metrics'') ''precision'',
                 fixed3_or (lookup tm ''classification_metrics'') ''recall'',
                 fixed3_or (lookup tm ''classification_metrics'') ''f1'',
                 fixed3_or (lookup tm ''classification_metrics'') ''auc''] = Inr g"
      using grid [of "lookup tm ''classification_metrics''"] by (auto simp: returns_iff)
    then show ?thesis
      unfolding renderTrainingMetrics_def using True
      by (simp add: mi tm Let_def)
  next
    case False
    then show ?thesis
      unfolding renderTrainingMetrics_def
      by (auto simp: mi tm Let_def)
  qed
qed

lemma returns_renderWarning: "warning_ok w \<Longrightarrow> returns (renderWarning w)"
proof -
  assume "warning_ok w"
  then obtain ps where w: "w = JObj ps"
    and ok: "fields text_field [''severity'', ''type'', ''message''] ps"
    unfolding warning_ok_def by (cases w) auto
  have f: "text_field (lookup ps k)" if "k \<in> set [''severity'', ''type'', ''message'']" for k
    using fields_lookup [OF ok that] .
  obtain c where c: "getSeverityColor_js (lookup ps ''severity'') = Inr c"
    using returns_severity_color [OF f [of "''severity''"]] by (auto simp: returns_iff)
  have "returns (template warning_template
          [Inr c, text_or (JObj ps) ''severity'' (JStr ''UNKNOWN''),
           text_or (JObj ps) ''type'' (JStr ''N/A''),
           text_or (JObj ps) ''message'' (JStr ''N/A'')])"
    by (intro returns_template) (simp add: returns_text_or f)
  then show ?thesis
    unfolding renderWarning_def w by (simp add: c)
qed

lemma returns_warnings:
  assumes "list_all warning_ok ws" and "n \<le> length ws"
  shows "returns (sequenceE (map (\<lambda>i. thenE (get_index (JArr ws) i) renderWarning) [0 ..< n]))"
proof -
  have "returns (thenE (get_index (JArr ws) i) renderWarning)" if "i < n" for i
  proof -
    have "i < length ws" using that assms(2) by simp
    then have "warning_ok (ws ! i)" using assms(1) by (simp add: list_all_length)
    then show ?thesis using \<open>i < length ws\<close> by (simp add: returns_renderWarning)
  qed
  then show ?thesis
    by (intro returns_sequenceE) (simp add: list_all_iff)
qed

lemma iterations_length: "iterations (Finite (of_nat n)) n = n"
  by simp

lemma returns_renderModelQuality:
  assumes "model_quality_ok (lookup ps ''model_quality'')"
  shows "returns (renderModelQuality h (JObj ps))"
proof -
  let ?ok = "\<lambda>ps. text_field (lookup ps ''assessment'') \<and> absent_or warning_list (lookup ps ''warnings'')"
  have "?ok []" by simp
  with assms obtain mq where mq: "or_else (lookup ps ''model_quality'') (JObj []) = JObj mq"
    and ok: "?ok mq"
    unfolding model_quality_ok_def using section_object [of ?ok] by blast
  define html0 where "html0 = fill model_quality_open []"
  have "returns (if truthy (lookup mq ''assessment'')
                 then thenE (getQualityColor_js (lookup mq ''assessment'')) (\<lambda>qualityColor.
                      thenE (template assessment_template [Inr qualityColor, ToString (lookup mq ''assessment'')])
                        (\<lambda>table. Inr (html0 @ table)))
                 else Inr html0)"
  proof (cases "lookup mq ''assessment''")
    case (JStr s)
    obtain c where c: "getQualityColor_js (JStr s) = Inr c"
      using returns_quality_color [of "JStr s"] by (auto simp: returns_iff)
    have "returns (template assessment_template [Inr c, ToString (JStr s)])"
      by (intro returns_template) simp
    then show ?thesis
      unfolding JStr by (auto simp: c returns_iff)
  qed (use ok in simp_all)
  then obtain html1 where html1:
    "(if truthy (lookup mq ''assessment'')
      then thenE (getQualityColor_js (lookup mq ''assessment'')) (\<lambda>qualityColor.
           thenE (template assessment_template [Inr qualityColor, ToString (lookup mq ''assessment'')])
             (\<lambda>table. Inr (html0 @ table)))
      else Inr html0) = Inr html1"
    by (auto simp: returns_iff)
  have "returns (if truthy (lookup mq ''warnings'')
                 then thenE (get (lookup mq ''warnings'') ''length'') (\<lambda>len.
                      thenE (ToNumber h len) (\<lambda>n.
                        if positive n
                        then thenE (sequenceE
                                      (map (\<lambda>i. thenE (get_index (lookup mq ''warnings'') i) renderWarning)
                                         [0 ..< iterations n (iteration_bound (lookup mq ''warnings''))]))
                               (\<lambda>items. Inr (html1 @ warnings_open @ concat items @ ''</div>''))
                        else Inr html1))
                 else Inr html1)"
  proof (cases "lookup mq ''warnings''")
    case (JArr ws)
    then have "list_all warning_ok ws" using ok by simp
    from returns_warnings [OF this, of "length ws"]
    obtain items where
      "sequenceE (map (\<lambda>i. thenE (get_index (JArr ws) i) renderWarning) [0 ..< length ws]) = Inr items"
      by (auto simp: returns_iff)
    then show ?thesis
      unfolding JArr by simp
  qed (use ok in simp_all)
  then obtain html2 where html2:
    "(if truthy (lookup mq ''warnings'')
      then thenE (get (lookup mq ''warnings'') ''length'') (\<lambda>len.
           thenE (ToNumber h len) (\<lambda>n.
             if positive n
             then thenE (sequenceE
                           (map (\<lambda>i. thenE (get_index (lookup mq ''warnings'') i) renderWarning)
                              [0 ..< iterations n (iteration_bound (lookup mq ''warnings''))]))
                    (\<lambda>items. Inr (html1 @ warnings_open @ concat items @ ''</div>''))
             else Inr html1))
      else Inr html1) = Inr html2"
    by (auto simp: returns_iff)
  show ?thesis
    unfolding renderModelQuality_def
    by (simp add: mq Let_def html0_def [symmetric] html1 html2)
qed

lemma returns_renderHTML:
  assumes "document d"
  shows "returns (renderHTML h now d)"
proof -
  from assms obtain ps where d: "d = JObj ps"
    and mi: "model_identification_ok (lookup ps ''model_identification'')"
    and td: "training_dataset_ok (lookup ps ''training_dataset'')"
    and tm: "training_metrics_ok (lookup ps ''training_metrics'')"
    and mq: "model_quality_ok (lookup ps ''model_quality'')"
    unfolding document_def by (cases d) auto
  let ?ks = "[''name'', ''session_id'', ''job_id'', ''status'', ''compute_cluster'', ''training_date'',
              ''model_type'', ''target_column'', ''target_column_type'', ''framework'']"
  have "fields text_field ?ks []" by (simp add: fields_def)
  with mi obtain m where m: "or_else (lookup ps ''model_identification'') (JObj []) = JObj m"
    and ok: "fields text_field ?ks m"
    unfolding model_identification_ok_def using section_object by blast
  have "text_field (lookup m ''name'')" using fields_lookup [OF ok] by simp
  then obtain name where name: "or_else (lookup m ''name'') (JStr ''Model Card'') = JStr name"
    using text_field_or_else by blast
  have "returns (sequenceE [renderModelIdentification (JObj ps), renderTrainingDataset h (JObj ps),
                            renderTrainingMetrics (JObj ps), renderModelQuality h (JObj ps)])"
    by (intro returns_sequenceE)
       (simp add: returns_renderModelIdentification returns_renderTrainingDataset
          returns_renderTrainingMetrics returns_renderModelQuality mi td tm mq)
  then obtain rendered where rendered:
    "sequenceE [renderModelIdentification (JObj ps), renderTrainingDataset h (JObj ps),
                renderTrainingMetrics (JObj ps), renderModelQuality h (JObj ps)] = Inr rendered"
    by (auto simp: returns_iff)
  have "returns (template page_template
                  [ToString (JStr name), call_toUpperCase (JStr name), Inr (dateStr now),
                   Inr (concat rendered)])"
    by (intro returns_template) simp
  then show ?thesis
    unfolding renderHTML_def d
    by (simp add: m name rendered Let_def del: sequenceE.simps)
qed

subsection \<open>Sections without data\<close>

lemma contains_append: "contains sub (pre @ sub @ post)"
proof (induction pre)
  case Nil
  have "take (length sub) (sub @ post) = sub" by simp
  then show ?case by (cases "sub @ post") (auto simp del: take_append)
next
  case (Cons p pre)
  then show ?case by simp
qed

lemma sequenceE_four:
  assumes "sequenceE [m1, m2, m3, m4] = Inr xs"
  shows "\<exists>a b c e. m1 = Inr a \<and> m2 = Inr b \<and> m3 = Inr c \<and> m4 = Inr e \<and> xs = [a, b, c, e]"
  using assms by (cases m1; cases m2; cases m3; cases m4) auto

lemma renderHTML_quality:
  assumes "renderHTML h t d = Inr page"
  shows "\<exists>pre post mq. renderModelQuality h d = Inr mq \<and> page = pre @ mq @ post"
proof -
  obtain c0 c1 c2 c3 c4 where pt: "page_template = [c0, c1, c2, c3, c4]"
    using page_template_chunks by blast
  define sections where
    "sections = sequenceE [renderModelIdentification d, renderTrainingDataset h d,
                           renderTrainingMetrics d, renderModelQuality h d]"
  have unfold: "renderHTML h t d =
      thenE (get d ''model_identification'') (\<lambda>v.
      thenE (get (or_else v (JObj [])) ''name'') (\<lambda>v.
        thenE sections (\<lambda>rendered.
          thenE (ToString (or_else v (JStr ''Model Card''))) (\<lambda>a.
          thenE (call_toUpperCase (or_else v (JStr ''Model Card''))) (\<lambda>b.
            Inr ((c0 @ a @ c1 @ b @ c2) @ dateStr t @ (c3 @ concat rendered @ c4)))))))"
    by (simp add: renderHTML_def template_def Let_def pt sections_def thenE_def
          split: sum.splits)
  from assms obtain rendered a b where r: "sections = Inr rendered"
    and page: "page = (c0 @ a @ c1 @ b @ c2) @ dateStr t @ (c3 @ concat rendered @ c4)"
    unfolding unfold thenE_Inr_iff by auto
  from sequenceE_four [OF r [unfolded sections_def]] obtain s1 s2 s3 mq where
    mq: "renderModelQuality h d = Inr mq" and rendered: "rendered = [s1, s2, s3, mq]"
    by blast
  have "page = ((c0 @ a @ c1 @ b @ c2) @ dateStr t @ c3 @ s1 @ s2 @ s3) @ mq @ c4"
    unfolding page rendered by simp
  with mq show ?thesis by blast
qed

lemma columnStatisticsSection_absent:
  "columnStatisticsSection ex d = Inr None
     \<longleftrightarrow> column_statistics d = None \<or> column_statistics d = Some []"
proof (cases "column_statistics d")
  case None
  then show ?thesis by (simp add: columnStatisticsSection_def)
next
  case (Some columns)
  show ?thesis
  proof (cases columns)
    case Nil
    then show ?thesis using Some by (simp add: columnStatisticsSection_def)
  next
    case (Cons c cs)
    then show ?thesis
      using Some
      by (cases "sequenceE (map column_row (c # cs))") (simp_all add: columnStatisticsSection_def)
  qed
qed

lemma renderModelQuality_shell:
  assumes "or_else (lookup ps ''model_quality'') (JObj []) = JObj mq"
    and "\<not> truthy (lookup mq ''assessment'')"
    and "\<not> truthy (lookup mq ''warnings'') \<or> lookup mq ''warnings'' = JArr []"
  shows "renderModelQuality h (JObj ps) = Inr empty_model_quality"
proof -
  define html0 where "html0 = fill model_quality_open []"
  define close where "close = fill section_close []"
  from assms(3) consider "\<not> truthy (lookup mq ''warnings'')" | "lookup mq ''warnings'' = JArr []"
    by blast
  then show ?thesis
    unfolding renderModelQuality_def empty_model_quality_def
    by cases (simp_all add: Let_def assms(1,2) html0_def [symmetric] close_def [symmetric])
qed

lemma modelQualitySection_shell:
  assumes "assessment (model_quality d) \<in> {None, Some []}"
    and "recommendations (model_quality d) \<in> {None, Some []}"
    and "warnings (model_quality d) = []"
  shows "modelQualitySection ex d
           = renderSection ex ''model-quality'' ''Model Quality'' (Element ''div'' [] [])"
  using assms by (auto simp: modelQualitySection_def Let_def)

lemma title_in_shell: "contains ''Model Quality'' empty_model_quality"
  by code_simp

text \<open>
  C1. For every document, the component leaves the column-statistics section out exactly
  when the column-statistics map is missing or empty. The model-quality section is not
  left out: for a model quality with no assessment and no warnings (missing, or with
  nothing in them), \<^verbatim>\<open>renderModelQuality\<close> returns the shell of the section, its opening
  with the title \<^verbatim>\<open>Model Quality\<close> and its closing, and every page that \<^verbatim>\<open>renderHTML\<close>
  returns holds that shell; for a model quality with no assessment, no recommendations and
  no warnings the component renders the section with its title and an empty content.
\<close>

theorem absent_section_output:
  "(columnStatisticsSection ex d = Inr None
      \<longleftrightarrow> column_statistics d = None \<or> column_statistics d = Some [])
   \<and> (or_else (lookup ps ''model_quality'') (JObj []) = JObj mq
        \<and> \<not> truthy (lookup mq ''assessment'')
        \<and> (\<not> truthy (lookup mq ''warnings'') \<or> lookup mq ''warnings'' = JArr [])
        \<longrightarrow> renderModelQuality h (JObj ps) = Inr empty_model_quality
            \<and> (\<forall>page. renderHTML h now (JObj ps) = Inr page \<longrightarrow> contains empty_model_quality page))
   \<and> contains ''Model Quality'' empty_model_quality
   \<and> (assessment (model_quality d) \<in> {None, Some []}
        \<and> recommendations (model_quality d) \<in> {None, Some []}
        \<and> warnings (model_quality d) = []
        \<longrightarrow> modelQualitySection ex d
            = renderSection ex ''model-quality'' ''Model Quality'' (Element ''div'' [] []))"
proof (intro conjI impI allI)
  show "columnStatisticsSection ex d = Inr None
          \<longleftrightarrow> column_statistics d = None \<or> column_statistics d = Some []"
    by (rule columnStatisticsSection_absent)
next
  assume a: "or_else (lookup ps ''model_quality'') (JObj []) = JObj mq
        \<and> \<not> truthy (lookup mq ''assessment'')
        \<and> (\<not> truthy (lookup mq ''warnings'') \<or> lookup mq ''warnings'' = JArr [])"
  then show s: "renderModelQuality h (JObj ps) = Inr empty_model_quality"
    using renderModelQuality_shell by blast
  fix page
  assume "renderHTML h now (JObj ps) = Inr page"
  from renderHTML_quality [OF this] s obtain pre post where "page = pre @ empty_model_quality @ post"
    by auto
  then show "contains empty_model_quality page"
    by (simp only: contains_append)
next
  show "contains ''Model Quality'' empty_model_quality" by (rule title_in_shell)
next
  assume "assessment (model_quality d) \<in> {None, Some []}
        \<and> recommendations (model_quality d) \<in> {None, Some []}
        \<and> warnings (model_quality d) = []"
  then show "modelQualitySection ex d
            = renderSection ex ''model-quality'' ''Model Quality'' (Element ''div'' [] [])"
    using modelQualitySection_shell by blast
qed

lemma sparse_quality:
  "sparse_document = JObj ps \<Longrightarrow>
   or_else (lookup ps ''model_quality'') (JObj []) = JObj [(''assessment'', JNull), (''recommendations'', JNull), (''warnings'', JArr [])]"
  by (auto simp: sparse_document_def lookup_def or_else_def)

lemma document_sparse: "document sparse_document"
  by (simp add: sparse_document_def document_def model_identification_ok_def training_dataset_ok_def
        training_metrics_ok_def model_quality_ok_def fields_def lookup_def)

text \<open>
  The example card with an empty column-statistics map, without one and with one of
  twelve columns; the page of the document whose model quality has nothing in it; and the
  model-quality section of the example card, which has no findings, in a component all of
  whose sections are closed.
\<close>

theorem absent_section_output_witness:
  "columnStatisticsSection initial_expandedSections quiet_card = Inr None
   \<and> columnStatisticsSection initial_expandedSections no_statistics_card = Inr None
   \<and> columnStatisticsSection initial_expandedSections sample_card \<noteq> Inr None
   \<and> (case renderHTML sample_host noon sparse_document of
         Inr page \<Rightarrow> contains empty_model_quality page | Inl e \<Rightarrow> False)
   \<and> modelQualitySection {} sample_card
       = renderSection {} ''model-quality'' ''Model Quality'' (Element ''div'' [] [])"
proof -
  obtain ps where ps: "sparse_document = JObj ps"
    by (simp add: sparse_document_def)
  let ?mq = "[(''assessment'', JNull), (''recommendations'', JNull), (''warnings'', JArr [])]"
  note inst = absent_section_output [of _ _ ps ?mq sample_host noon]
  have q: "column_statistics quiet_card = Some []" by (simp add: quiet_card_def)
  have n: "column_statistics no_statistics_card = None" by (simp add: no_statistics_card_def)
  have s: "column_statistics sample_card \<noteq> None \<and> column_statistics sample_card \<noteq> Some []"
    by (simp add: sample_card_def twelve_columns_def)
  have f: "assessment (model_quality sample_card) \<in> {None, Some []}
        \<and> recommendations (model_quality sample_card) \<in> {None, Some []}
        \<and> warnings (model_quality sample_card) = []"
    by (simp add: sample_card_def)
  have m: "or_else (lookup ps ''model_quality'') (JObj []) = JObj ?mq
        \<and> \<not> truthy (lookup ?mq ''assessment'')
        \<and> (\<not> truthy (lookup ?mq ''warnings'') \<or> lookup ?mq ''warnings'' = JArr [])"
    using sparse_quality [OF ps] by (simp add: lookup_def)
  obtain page where page: "renderHTML sample_host noon sparse_document = Inr page"
    using returns_renderHTML [OF document_sparse, of sample_host noon] by (auto simp only: returns_iff)
  from inst [of initial_expandedSections quiet_card] q
  have 1: "columnStatisticsSection initial_expandedSections quiet_card = Inr None" by blast
  from inst [of initial_expandedSections no_statistics_card] n
  have 2: "columnStatisticsSection initial_expandedSections no_statistics_card = Inr None" by blast
  from inst [of initial_expandedSections sample_card] s
  have 3: "columnStatisticsSection initial_expandedSections sample_card \<noteq> Inr None" by blast
  from inst [of "{}" sample_card] m page [unfolded ps]
  have "contains empty_model_quality page" by blast
  then have 4: "case renderHTML sample_host noon sparse_document of
         Inr page \<Rightarrow> contains empty_model_quality page | Inl e \<Rightarrow> False"
    by (simp only: page sum.case)
  from inst [of "{}" sample_card] f
  have 5: "modelQualitySection {} sample_card
       = renderSection {} ''model-quality'' ''Model Quality'' (Element ''div'' [] [])" by blast
  from 1 2 3 4 5 show ?thesis by blast
qed

lemma sparse_shell: "renderModelQuality sample_host sparse_document = Inr empty_model_quality"
proof -
  obtain ps where ps: "sparse_document = JObj ps"
    by (simp add: sparse_document_def)
  show ?thesis
    unfolding ps
    by (rule renderModelQuality_shell [OF sparse_quality [OF ps]]) (simp_all add: lookup_def)
qed

text \<open>
  The model-quality section of a document with no assessment, no recommendations and no
  warnings is not absent from the output: the standalone renderer returns the shell with
  the title, and the component, in its initial state, the header with the title and an
  empty content.
\<close>

theorem model_quality_shell_counterexample:
  "renderModelQuality sample_host sparse_document = Inr empty_model_quality
   \<and> contains ''Model Quality'' empty_model_quality
   \<and> empty_model_quality \<noteq> []
   \<and> modelQualitySection initial_expandedSections sample_card
       = Element ''div'' [(''className'', Str ''model-card-section''), (''key'', Str ''model-quality'')]
           [Element ''div''
              [(''className'', Str ''section-header''), (''onClick'', OnClick ''model-quality''),
               (''style'', Style [(''cursor'', ''pointer'')])]
              [Element ''h2'' [] [Text ''Model Quality''],
               Element ''span'' [(''className'', Str ''toggle-icon'')] [Text [CHR 0xE2, CHR 0x96, CHR 0xBC]]],
            Element ''div'' [(''className'', Str ''section-content'')] [Element ''div'' [] []]]"
proof -
  have "empty_model_quality \<noteq> []" by code_simp
  moreover have "modelQualitySection initial_expandedSections sample_card
       = Element ''div'' [(''className'', Str ''model-card-section''), (''key'', Str ''model-quality'')]
           [Element ''div''
              [(''className'', Str ''section-header''), (''onClick'', OnClick ''model-quality''),
               (''style'', Style [(''cursor'', ''pointer'')])]
              [Element ''h2'' [] [Text ''Model Quality''],
               Element ''span'' [(''className'', Str ''toggle-icon'')] [Text [CHR 0xE2, CHR 0x96, CHR 0xBC]]],
            Element ''div'' [(''className'', Str ''section-content'')] [Element ''div'' [] []]]"
    by (simp add: modelQualitySection_def renderSection_def initial_expandedSections_def
          sample_card_def Let_def)
  ultimately show ?thesis using sparse_shell title_in_shell by blast
qed

subsection \<open>Absent and null fields\<close>





subsection \<open>The clock\<close>

lemma seconds_text:
  "Number_toString (Finite 5) = ''5'' \<and> Number_toString (Finite 6) = ''6''"
  by code_simp

lemma dateStr_noon: "dateStr noon \<noteq> dateStr a_second_later"
  by (simp add: dateStr_def noon_def a_second_later_def String_of_int_def padStart_def seconds_text)

lemma empty_document: "document (JObj [])"
  by (simp add: document_def model_identification_ok_def training_dataset_ok_def
        training_metrics_ok_def model_quality_ok_def)

text \<open>
  C3. \<^verbatim>\<open>renderHTML\<close> is a function of the document and of the clock. Either it raises the
  same error at every time, or its page is the same text at every time but for the
  timestamp \<^verbatim>\<open>Generated:\<close>, which is the local time of the call to the second. So two
  invocations on the same document return the same output exactly when their timestamps
  are equal, or when they raise.
\<close>

theorem renderHTML_clock:
  "((\<exists>pre post. \<forall>t. renderHTML h t d = Inr (pre @ dateStr t @ post))
     \<or> (\<exists>e. \<forall>t. renderHTML h t d = Inl e))
   \<and> (renderHTML h t1 d = renderHTML h t2 d
        \<longleftrightarrow> dateStr t1 = dateStr t2 \<or> isl (renderHTML h t1 d))"
  using renderHTML_shape [of h d] by auto

text \<open>Two invocations on the empty document, one second apart, return different pages.\<close>

theorem renderHTML_clock_counterexample:
  "renderHTML sample_host noon (JObj []) \<noteq> renderHTML sample_host a_second_later (JObj [])"
proof -
  obtain page where page: "renderHTML sample_host noon (JObj []) = Inr page"
    using returns_renderHTML [OF empty_document, of sample_host noon] by (auto simp only: returns_iff)
  from renderHTML_shape [of sample_host "JObj []"]
  show ?thesis
  proof (elim disjE exE)
    fix pre post
    assume s: "\<forall>t. renderHTML sample_host t (JObj []) = Inr (pre @ dateStr t @ post)"
    have "pre @ dateStr noon @ post \<noteq> pre @ dateStr a_second_later @ post"
      using dateStr_noon by (simp only: same_append_eq append_same_eq not_False_eq_True)
    then show ?thesis by (simp only: s sum.inject not_False_eq_True)
  next
    fix e
    assume "\<forall>t. renderHTML sample_host t (JObj []) = Inl e"
    then have "renderHTML sample_host noon (JObj []) = Inl e" by (rule spec)
    with page show ?thesis by simp
  qed
qed

subsection \<open>The model type of the metrics\<close>

lemma renderTrainingMetrics_other:
  assumes m: "modelType_of data = Inr t" and ne: "t \<noteq> JStr ''Single Predictor''"
  shows "renderTrainingMetrics data = Inr empty_training_metrics"
proof -
  obtain v where v: "get data ''model_identification'' = Inr v"
    using m by (cases "get data ''model_identification''") (simp_all add: modelType_of_def)
  obtain w where w: "get (or_else v (JObj [])) ''model_type'' = Inr w"
    using m by (cases "get (or_else v (JObj [])) ''model_type''") (simp_all add: modelType_of_def v)
  have t: "or_else w (JStr []) = t"
    using m by (simp add: modelType_of_def v w)
  from v obtain u where u: "get data ''training_metrics'' = Inr u"
    by (cases data) simp_all
  define html0 where "html0 = fill training_metrics_open []"
  define close where "close = fill section_close []"
  have "renderTrainingMetrics data = Inr (html0 @ close)"
    unfolding renderTrainingMetrics_def
    by (simp only: u v w t thenE_Inr Let_def html0_def [symmetric] close_def [symmetric] ne if_False)
  then show ?thesis
    by (simp only: empty_training_metrics_def html0_def close_def)
qed

lemma renderTrainingMetrics_grid:
  assumes m: "modelType_of (JObj ps) = Inr (JStr ''Single Predictor'')"
    and tm: "or_else (lookup ps ''training_metrics'') (JObj []) = JObj tm"
    and cm: "lookup tm ''classification_metrics'' = JObj cm"
    and ok: "fields number_field [''precision'', ''recall'', ''f1'', ''auc''] cm"
  shows "\<exists>grid. template classification_grid_template
                   [fixed3_or (JObj cm) ''precision'', fixed3_or (JObj cm) ''recall'',
                    fixed3_or (JObj cm) ''f1'', fixed3_or (JObj cm) ''auc''] = Inr grid
               \<and> renderTrainingMetrics (JObj ps)
                   = Inr (fill training_metrics_open [] @ grid @ fill section_close [])"
proof -
  have "number_field (lookup cm k)" if "k \<in> set [''precision'', ''recall'', ''f1'', ''auc'']" for k
    using fields_lookup [OF ok that] .
  then have "returns (template classification_grid_template
                   [fixed3_or (JObj cm) ''precision'', fixed3_or (JObj cm) ''recall'',
                    fixed3_or (JObj cm) ''f1'', fixed3_or (JObj cm) ''auc''])"
    by (intro returns_template) (simp add: returns_fixed3_or)
  then obtain grid where grid: "template classification_grid_template
                   [fixed3_or (JObj cm) ''precision'', fixed3_or (JObj cm) ''recall'',
                    fixed3_or (JObj cm) ''f1'', fixed3_or (JObj cm) ''auc''] = Inr grid"
    by (auto simp only: returns_iff)
  obtain w where w: "get (or_else (lookup ps ''model_identification'') (JObj [])) ''model_type'' = Inr w"
    using m
    by (cases "get (or_else (lookup ps ''model_identification'') (JObj [])) ''model_type''")
       (simp_all add: modelType_of_def)
  have t: "or_else w (JStr []) = JStr ''Single Predictor''"
    using m by (simp add: modelType_of_def w)
  define html0 where "html0 = fill training_metrics_open []"
  define close where "close = fill section_close []"
  have "renderTrainingMetrics (JObj ps) = Inr (html0 @ grid @ close)"
    unfolding renderTrainingMetrics_def
    by (simp add: w t tm cm grid Let_def html0_def [symmetric] close_def [symmetric])
  with grid show ?thesis
    unfolding html0_def close_def by blast
qed

lemma no_grid_in_shell: "\<not> contains ''Precision'' empty_training_metrics"
  by code_simp

lemma contains_iff: "contains sub s \<longleftrightarrow> (\<exists>pre post. s = pre @ sub @ post)"
proof
  show "contains sub s \<Longrightarrow> \<exists>pre post. s = pre @ sub @ post"
  proof (induction s)
    case Nil
    then show ?case by simp
  next
    case (Cons c s)
    from Cons.prems consider "take (length sub) (c # s) = sub" | "contains sub s"
      by auto
    then show ?case
    proof cases
      case 1
      have "c # s = [] @ take (length sub) (c # s) @ drop (length sub) (c # s)"
        by (simp only: append_Nil append_take_drop_id)
      then show ?thesis unfolding 1 by blast
    next
      case 2
      with Cons.IH obtain pre post where "s = pre @ sub @ post" by blast
      then have "c # s = (c # pre) @ sub @ post" by simp
      then show ?thesis by blast
    qed
  qed
next
  show "\<exists>pre post. s = pre @ sub @ post \<Longrightarrow> contains sub s"
    using contains_append by blast
qed

lemma grid_first_label: "contains ''Precision'' (hd classification_grid_template)"
  by code_simp

lemma grid_label: "contains ''Precision'' (fill classification_grid_template [a, b, c, d])"
proof -
  obtain c0 c1 c2 c3 c4 where t: "classification_grid_template = [c0, c1, c2, c3, c4]"
    unfolding classification_grid_template_def by blast
  from grid_first_label obtain pre post where "c0 = pre @ ''Precision'' @ post"
    unfolding t contains_iff by auto
  then have "fill classification_grid_template [a, b, c, d]
               = pre @ ''Precision'' @ (post @ a @ c1 @ b @ c2 @ c @ c3 @ d @ c4)"
    unfolding t by simp
  then show ?thesis by (simp only: contains_append)
qed

text \<open>
  C10. The classification-metric series of the component and the classification-metrics
  grid of the standalone page are produced only for the model type that is exactly the
  string \<^verbatim>\<open>Single Predictor\<close>: the series is not null exactly when the model type is that
  string and the classification metrics are present; for every other model type read from
  the document, the metrics section of the page is its opening and its closing, with no
  grid between them; and for that string, with classification metrics that are null or
  numbers, the grid stands between them.
\<close>

theorem metrics_exact_model_type:
  "(metricsChartData d \<noteq> None
      \<longleftrightarrow> model_type (model_identification d) = ''Single Predictor''
          \<and> classification_metrics (training_metrics d) \<noteq> None)
   \<and> (modelType_of data = Inr t \<and> t \<noteq> JStr ''Single Predictor''
        \<longrightarrow> renderTrainingMetrics data = Inr empty_training_metrics)
   \<and> \<not> contains ''Precision'' empty_training_metrics
   \<and> (modelType_of (JObj ps) = Inr (JStr ''Single Predictor'')
        \<and> or_else (lookup ps ''training_metrics'') (JObj []) = JObj tm
        \<and> lookup tm ''classification_metrics'' = JObj cm
        \<and> fields number_field [''precision'', ''recall'', ''f1'', ''auc''] cm
        \<longrightarrow> (\<exists>grid. template classification_grid_template
                         [fixed3_or (JObj cm) ''precision'', fixed3_or (JObj cm) ''recall'',
                          fixed3_or (JObj cm) ''f1'', fixed3_or (JObj cm) ''auc''] = Inr grid
                     \<and> contains ''Precision'' grid
                     \<and> renderTrainingMetrics (JObj ps)
                         = Inr (fill training_metrics_open [] @ grid @ fill section_close [])))"
proof (intro conjI impI)
  show "metricsChartData d \<noteq> None
      \<longleftrightarrow> model_type (model_identification d) = ''Single Predictor''
          \<and> classification_metrics (training_metrics d) \<noteq> None"
    by (auto simp: metricsChartData_def split: option.splits)
next
  assume "modelType_of data = Inr t \<and> t \<noteq> JStr ''Single Predictor''"
  then show "renderTrainingMetrics data = Inr empty_training_metrics"
    using renderTrainingMetrics_other by blast
next
  show "\<not> contains ''Precision'' empty_training_metrics" by (rule no_grid_in_shell)
next
  assume a: "modelType_of (JObj ps) = Inr (JStr ''Single Predictor'')
        \<and> or_else (lookup ps ''training_metrics'') (JObj []) = JObj tm
        \<and> lookup tm ''classification_metrics'' = JObj cm
        \<and> fields number_field [''precision'', ''recall'', ''f1'', ''auc''] cm"
  then obtain grid where g: "template classification_grid_template
                         [fixed3_or (JObj cm) ''precision'', fixed3_or (JObj cm) ''recall'',
                          fixed3_or (JObj cm) ''f1'', fixed3_or (JObj cm) ''auc''] = Inr grid"
    and r: "renderTrainingMetrics (JObj ps)
              = Inr (fill training_metrics_open [] @ grid @ fill section_close [])"
    using renderTrainingMetrics_grid [of ps tm cm] by blast
  from g obtain vs where "sequenceE [fixed3_or (JObj cm) ''precision'', fixed3_or (JObj cm) ''recall'',
                          fixed3_or (JObj cm) ''f1'', fixed3_or (JObj cm) ''auc''] = Inr vs"
    and grid: "grid = fill classification_grid_template vs"
    unfolding template_def thenE_Inr_iff by auto
  from sequenceE_four [OF this(1)] obtain a b c e where "vs = [a, b, c, e]" by blast
  then have "contains ''Precision'' grid"
    unfolding grid by (simp only: grid_label)
  with g r show "\<exists>grid. template classification_grid_template
                         [fixed3_or (JObj cm) ''precision'', fixed3_or (JObj cm) ''recall'',
                          fixed3_or (JObj cm) ''f1'', fixed3_or (JObj cm) ''auc''] = Inr grid
                     \<and> contains ''Precision'' grid
                     \<and> renderTrainingMetrics (JObj ps)
                         = Inr (fill training_metrics_open [] @ grid @ fill section_close [])"
    by blast
qed

lemma sparse_modelType: "modelType_of sparse_document = Inr (JStr ''single predictor'')"
  by (simp add: modelType_of_def sparse_document_def lookup_def or_else_def)

lemma classifier_grid:
  "renderTrainingMetrics classifier_document
     = Inr (fill training_metrics_open []
            @ fill classification_grid_template [''0.912'', ''N/A'', ''N/A'', ''N/A'']
            @ fill section_close [])"
  by code_simp

lemma short_code_display:
  "getModelTypeDisplay (model_type (model_identification short_code_card)) None = ''Single Predictor''
   \<and> getModelTypeDisplay (model_type (model_identification lowercase_card)) None = ''Single Predictor''"
  by (simp add: short_code_card_def lowercase_card_def) code_simp

text \<open>
  The example card with its model type in lower case and as the short code, both of which
  the display of the model type accepts; the example card itself; the document with the
  model type in lower case and the document of a classifier, whose grid shows its
  precision and \<^verbatim>\<open>N/A\<close> for the metrics that it has not.
\<close>

theorem metrics_exact_model_type_witness:
  "metricsChartData lowercase_card = None
   \<and> metricsChartData short_code_card = None
   \<and> getModelTypeDisplay (model_type (model_identification short_code_card)) None = ''Single Predictor''
   \<and> getModelTypeDisplay (model_type (model_identification lowercase_card)) None = ''Single Predictor''
   \<and> metricsChartData sample_card \<noteq> None
   \<and> modelType_of sparse_document = Inr (JStr ''single predictor'')
   \<and> renderTrainingMetrics sparse_document = Inr empty_training_metrics
   \<and> renderTrainingMetrics classifier_document
       = Inr (fill training_metrics_open []
              @ fill classification_grid_template [''0.912'', ''N/A'', ''N/A'', ''N/A'']
              @ fill section_close [])
   \<and> contains ''Precision'' (fill classification_grid_template [''0.912'', ''N/A'', ''N/A'', ''N/A''])"
proof -
  let ?cm = "[(''precision'', JNum (lit (912 / 1000))), (''recall'', JNull)]"
  let ?tm = "[(''classification_metrics'', JObj ?cm)]"
  obtain ps where ps: "classifier_document = JObj ps"
    and tm: "or_else (lookup ps ''training_metrics'') (JObj []) = JObj ?tm"
    and mt: "modelType_of (JObj ps) = Inr (JStr ''Single Predictor'')"
    by (simp add: classifier_document_def modelType_of_def lookup_def or_else_def)
  have cm: "lookup ?tm ''classification_metrics'' = JObj ?cm"
    by (simp add: lookup_def)
  have ok: "fields number_field [''precision'', ''recall'', ''f1'', ''auc''] ?cm"
    by (simp add: fields_def lookup_def)
  have a: "model_type (model_identification lowercase_card) \<noteq> ''Single Predictor''"
    by (simp add: lowercase_card_def)
  have b: "model_type (model_identification short_code_card) \<noteq> ''Single Predictor''"
    by (simp add: short_code_card_def)
  have c: "model_type (model_identification sample_card) = ''Single Predictor''
           \<and> classification_metrics (training_metrics sample_card) \<noteq> None"
    by (simp add: sample_card_def)
  have e: "JStr ''single predictor'' \<noteq> JStr ''Single Predictor''" by simp
  note inst = metrics_exact_model_type [of _ sparse_document "JStr ''single predictor''" ps ?tm ?cm]
  from inst [of lowercase_card] a have 1: "metricsChartData lowercase_card = None" by blast
  from inst [of short_code_card] b have 2: "metricsChartData short_code_card = None" by blast
  from inst [of sample_card] c have 3: "metricsChartData sample_card \<noteq> None" by blast
  from inst [of sample_card] sparse_modelType e
  have 4: "renderTrainingMetrics sparse_document = Inr empty_training_metrics" by blast
  from inst [of sample_card] mt tm cm ok obtain grid where
    g: "contains ''Precision'' grid"
    and r: "renderTrainingMetrics (JObj ps)
              = Inr (fill training_metrics_open [] @ grid @ fill section_close [])"
    by blast
  from r have "grid = fill classification_grid_template [''0.912'', ''N/A'', ''N/A'', ''N/A'']"
    unfolding ps [symmetric] classifier_grid by simp
  with g have 5: "contains ''Precision'' (fill classification_grid_template [''0.912'', ''N/A'', ''N/A'', ''N/A''])"
    by simp
  from 1 2 3 4 5 short_code_display sparse_modelType classifier_grid show ?thesis by blast
qed
end
